theory Spec2Isabelle
  imports Complex_Main
begin

section \<open>Values, objects and the environment of a request\<close>

text \<open>
  A JavaScript value as it occurs in a request body, a query string, a validated object or
  a storage cell. \<open>Num\<close> is an integer number, \<open>Frac\<close> a number that is not an integer,
  \<open>Date\<close> a \<open>Date\<close> object (milliseconds since the epoch) and \<open>Other\<close> any remaining
  JSON value (an array, an object), which is truthy. \<open>undefined\<close> is the absence of a key.
\<close>

datatype val = Null | Bool bool | Num int | Frac rat | Str string | Date nat | Other

type_synonym obj = "(string \<times> val) list"

text \<open>\<open>o.k\<close>: \<open>None\<close> is \<open>undefined\<close>. Objects have distinct keys.\<close>

definition lookup :: "obj \<Rightarrow> string \<Rightarrow> val option" where
  "lookup ob k = map_of ob k"

definition Object_keys :: "obj \<Rightarrow> string list" where
  "Object_keys ob = map fst ob"

text \<open>Truthiness of \<open>if (x)\<close>, \<open>x && y\<close>, \<open>x || y\<close>.\<close>

fun truthy :: "val option \<Rightarrow> bool" where
  "truthy None = False"
| "truthy (Some Null) = False"
| "truthy (Some (Bool b)) = b"
| "truthy (Some (Num n)) = (n \<noteq> 0)"
| "truthy (Some (Frac q)) = (q \<noteq> 0)"
| "truthy (Some (Str s)) = (s \<noteq> [])"
| "truthy (Some (Date t)) = True"
| "truthy (Some Other) = True"

text \<open>A bound statement parameter: the driver sends \<open>undefined\<close> as NULL.\<close>

fun param :: "val option \<Rightarrow> val" where
  "param None = Null"
| "param (Some v) = v"

text \<open>An error object as \<open>errorHandler\<close> reads it.\<close>

record js_error =
  err_message :: string
  err_status :: "nat option"
  isJoi :: bool
  first_detail :: string
  code :: "string option"
  err_name :: string
  err_stack :: string

text \<open>
  What a request takes from outside the repository's sources: the format checks and
  coercions of the validation library, the token verifier of \<open>utils/jwt\<close> (\<open>Inl\<close> is a
  throw), the two clocks (\<open>new Date()\<close> of the application and \<open>CURRENT_TIMESTAMP\<close> of the
  storage engine, as the driver reads it back), \<open>process.env.NODE_ENV\<close>, and two readings
  of the storage engine that depend on its version and on the time zones of the process and
  of the session: the integer that a text parameter denotes (\<open>None\<close>: the text is no
  integer), and the \<open>Date\<close> that the driver reads back from a DATE column to which a
  \<open>Date\<close> was bound (the column keeps the calendar day only).
\<close>

record env =
  isoDate :: "string \<Rightarrow> nat option"
  isEmail :: "string \<Rightarrow> bool"
  isUri :: "string \<Rightarrow> bool"
  toNumber :: "string \<Rightarrow> val option"
  verifyToken :: "string \<Rightarrow> js_error + obj"
  js_now :: nat
  db_now :: nat
  NODE_ENV :: string
  pg_integer :: "string \<Rightarrow> int option"
  pg_date :: "nat \<Rightarrow> nat"

section \<open>The response envelope\<close>

record response =
  status :: nat
  success :: bool
  message :: "string option"
  data :: "obj option"
  errors :: "(string \<times> string) list option"
  stack :: "string option"

text \<open>\<open>res.status(s).json({success, message})\<close> and \<open>res.json(...)\<close> (status 200).\<close>

definition json :: "nat \<Rightarrow> bool \<Rightarrow> string option \<Rightarrow> obj option \<Rightarrow> response" where
  "json s ok m d = \<lparr>status = s, success = ok, message = m, data = d, errors = None, stack = None\<rparr>"

section \<open>utils/validation.js\<close>

subsection \<open>The schema combinators that the file uses\<close>

datatype jtype = JoiString | JoiNumber | JoiDateIso

datatype rule =
    Rmin int
  | Rmax int
  | Remail
  | Ruri
  | Rpattern "string \<Rightarrow> bool"
  | Rinteger
  | Rpositive

record joi =
  jtype :: jtype
  rules :: "rule list"
  valids :: "val list"
  only :: bool
  required :: bool
  dflt :: "val option"

definition Joi_string :: joi where
  "Joi_string = \<lparr>jtype = JoiString, rules = [], valids = [], only = False, required = False, dflt = None\<rparr>"

definition Joi_number :: joi where
  "Joi_number = \<lparr>jtype = JoiNumber, rules = [], valids = [], only = False, required = False, dflt = None\<rparr>"

definition Joi_date_iso :: joi where
  "Joi_date_iso = \<lparr>jtype = JoiDateIso, rules = [], valids = [], only = False, required = False, dflt = None\<rparr>"

text \<open>\<open>.valid(...)\<close> restricts to the listed values; \<open>.allow(...)\<close> adds to them.\<close>

definition valid :: "val list \<Rightarrow> joi \<Rightarrow> joi" where
  "valid vs s = s\<lparr>valids := valids s @ vs, only := True\<rparr>"

definition allow :: "val list \<Rightarrow> joi \<Rightarrow> joi" where
  "allow vs s = s\<lparr>valids := valids s @ vs\<rparr>"

text \<open>The pattern \<open>/^#[0-9A-F]{6}$/i\<close>.\<close>

definition hex_color :: "string \<Rightarrow> bool" where
  "hex_color s = (case s of
       [] \<Rightarrow> False
     | c # cs \<Rightarrow> c = CHR ''#'' \<and> length cs = 6 \<and> list_all (\<lambda>x. x \<in> set ''0123456789abcdefABCDEF'') cs)"

type_synonym schema = "(string \<times> joi) list"

definition userSchemas_updateProfile :: schema where
  "userSchemas_updateProfile =
     [(''name'', Joi_string\<lparr>rules := [Rmin 2, Rmax 100]\<rparr>),
      (''email'', Joi_string\<lparr>rules := [Remail]\<rparr>),
      (''avatar_url'', allow [Str ''''] (Joi_string\<lparr>rules := [Ruri]\<rparr>))]"

definition status_values :: "val list" where
  "status_values = [Str ''pending'', Str ''in_progress'', Str ''completed'']"

definition priority_values :: "val list" where
  "priority_values = [Str ''low'', Str ''medium'', Str ''high'']"

definition taskSchemas_create :: schema where
  "taskSchemas_create =
     [(''title'', Joi_string\<lparr>rules := [Rmin 1, Rmax 200], required := True\<rparr>),
      (''description'', allow [Str ''''] (Joi_string\<lparr>rules := [Rmax 1000]\<rparr>)),
      (''status'', (valid status_values Joi_string)\<lparr>dflt := Some (Str ''pending'')\<rparr>),
      (''priority'', (valid priority_values Joi_string)\<lparr>dflt := Some (Str ''medium'')\<rparr>),
      (''due_date'', allow [Null] Joi_date_iso),
      (''category_id'', allow [Null] (Joi_number\<lparr>rules := [Rinteger, Rpositive]\<rparr>))]"

definition taskSchemas_update :: schema where
  "taskSchemas_update =
     [(''title'', Joi_string\<lparr>rules := [Rmin 1, Rmax 200]\<rparr>),
      (''description'', allow [Str ''''] (Joi_string\<lparr>rules := [Rmax 1000]\<rparr>)),
      (''status'', valid status_values Joi_string),
      (''priority'', valid priority_values Joi_string),
      (''due_date'', allow [Null] Joi_date_iso),
      (''category_id'', allow [Null] (Joi_number\<lparr>rules := [Rinteger, Rpositive]\<rparr>))]"

definition categorySchemas_create :: schema where
  "categorySchemas_create =
     [(''name'', Joi_string\<lparr>rules := [Rmin 1, Rmax 50], required := True\<rparr>),
      (''color'', Joi_string\<lparr>rules := [Rpattern hex_color], dflt := Some (Str ''#3B82F6'')\<rparr>)]"

definition categorySchemas_update :: schema where
  "categorySchemas_update =
     [(''name'', Joi_string\<lparr>rules := [Rmin 1, Rmax 50]\<rparr>),
      (''color'', Joi_string\<lparr>rules := [Rpattern hex_color]\<rparr>)]"

definition querySchemas_pagination :: schema where
  "querySchemas_pagination =
     [(''page'', Joi_number\<lparr>rules := [Rinteger, Rmin 1], dflt := Some (Num 1)\<rparr>),
      (''limit'', Joi_number\<lparr>rules := [Rinteger, Rmin 1, Rmax 100], dflt := Some (Num 10)\<rparr>),
      (''sort'', (valid [Str ''created_at'', Str ''updated_at'', Str ''title'', Str ''due_date'',
                         Str ''priority''] Joi_string)\<lparr>dflt := Some (Str ''created_at'')\<rparr>),
      (''order'', (valid [Str ''asc'', Str ''desc''] Joi_string)\<lparr>dflt := Some (Str ''desc'')\<rparr>)]"

definition querySchemas_taskFilters :: schema where
  "querySchemas_taskFilters =
     [(''status'', valid status_values Joi_string),
      (''priority'', valid priority_values Joi_string),
      (''category_id'', Joi_number\<lparr>rules := [Rinteger, Rpositive]\<rparr>),
      (''due_date_from'', Joi_date_iso),
      (''due_date_to'', Joi_date_iso),
      (''search'', Joi_string\<lparr>rules := [Rmax 100]\<rparr>)]"

text \<open>\<open>a.concat(b)\<close> of two object schemas with disjoint keys.\<close>

definition concat_schema :: "schema \<Rightarrow> schema \<Rightarrow> schema" where
  "concat_schema a b = a @ b"

subsection \<open>What \<open>schema.validate(value, {abortEarly: false, stripUnknown: true})\<close> computes\<close>

text \<open>Conversion before the checks: a numeric string to a number, an ISO string to a date.\<close>

fun coerce :: "env \<Rightarrow> jtype \<Rightarrow> val \<Rightarrow> val" where
  "coerce e JoiNumber (Str s) = (case toNumber e s of Some v \<Rightarrow> v | None \<Rightarrow> Str s)"
| "coerce e JoiDateIso (Str s) = (case isoDate e s of Some t \<Rightarrow> Date t | None \<Rightarrow> Str s)"
| "coerce e t v = v"

text \<open>\<open>Number.MIN_SAFE_INTEGER \<le> q \<le> Number.MAX_SAFE_INTEGER\<close>\<close>

definition safe :: "rat \<Rightarrow> bool" where
  "safe q = (- 9007199254740991 \<le> q \<and> q \<le> 9007199254740991)"

text \<open>
  The type check; a string schema refuses the empty string unless it is allowed, a number
  schema refuses a number outside the safe integers.
\<close>

fun base_error :: "jtype \<Rightarrow> val \<Rightarrow> string option" where
  "base_error JoiString (Str s) = (if s = [] then Some ''string.empty'' else None)"
| "base_error JoiString v = Some ''string.base''"
| "base_error JoiNumber (Num n) = (if safe (of_int n) then None else Some ''number.unsafe'')"
| "base_error JoiNumber (Frac q) = (if safe q then None else Some ''number.unsafe'')"
| "base_error JoiNumber v = Some ''number.base''"
| "base_error JoiDateIso (Date t) = None"
| "base_error JoiDateIso (Str s) = Some ''date.format''"
| "base_error JoiDateIso v = Some ''date.base''"

fun rule_error :: "env \<Rightarrow> rule \<Rightarrow> val \<Rightarrow> string option" where
  "rule_error e (Rmin n) (Str s) = (if int (length s) < n then Some ''string.min'' else None)"
| "rule_error e (Rmin n) (Num k) = (if k < n then Some ''number.min'' else None)"
| "rule_error e (Rmin n) (Frac q) = (if q < of_int n then Some ''number.min'' else None)"
| "rule_error e (Rmax n) (Str s) = (if n < int (length s) then Some ''string.max'' else None)"
| "rule_error e (Rmax n) (Num k) = (if n < k then Some ''number.max'' else None)"
| "rule_error e (Rmax n) (Frac q) = (if of_int n < q then Some ''number.max'' else None)"
| "rule_error e Remail (Str s) = (if isEmail e s then None else Some ''string.email'')"
| "rule_error e Ruri (Str s) = (if isUri e s then None else Some ''string.uri'')"
| "rule_error e (Rpattern p) (Str s) = (if p s then None else Some ''string.pattern.base'')"
| "rule_error e Rinteger (Frac q) = Some ''number.integer''"
| "rule_error e Rpositive (Num k) = (if 0 < k then None else Some ''number.positive'')"
| "rule_error e Rpositive (Frac q) = (if 0 < q then None else Some ''number.positive'')"
| "rule_error e r v = None"

text \<open>
  One value against its schema: the violations (all of them, as \<open>abortEarly\<close> is off; a
  failed type check ends the field) and the converted value.
\<close>

definition validate_value :: "env \<Rightarrow> joi \<Rightarrow> val \<Rightarrow> string list \<times> val" where
  "validate_value e s v0 =
     (let v = coerce e (jtype s) v0 in
      if v \<in> set (valids s) then ([], v)
      else
        let not_allowed = (if only s then [''any.only''] else []) in
        case base_error (jtype s) v of
          Some err \<Rightarrow> (not_allowed @ [err], v)
        | None \<Rightarrow> (not_allowed @ List.map_filter (\<lambda>r. rule_error e r v) (rules s), v))"

text \<open>The violations of one key of the schema, each with the path of the field.\<close>

definition field_errors :: "env \<Rightarrow> obj \<Rightarrow> string \<times> joi \<Rightarrow> (string \<times> string) list" where
  "field_errors e raw ks =
     (case lookup raw (fst ks) of
        None \<Rightarrow> (if required (snd ks) then [(fst ks, ''any.required'')] else [])
      | Some v \<Rightarrow> map (Pair (fst ks)) (fst (validate_value e (snd ks) v)))"

text \<open>
  The normalised value: the known keys of the input, converted, in the input's order
  (unknown keys are stripped), then the defaults of the keys that are missing.
\<close>

definition known :: "env \<Rightarrow> schema \<Rightarrow> string \<times> val \<Rightarrow> (string \<times> val) option" where
  "known e sch kv =
     (case map_of sch (fst kv) of
        None \<Rightarrow> None
      | Some s \<Rightarrow> Some (fst kv, snd (validate_value e s (snd kv))))"

definition missing_default :: "obj \<Rightarrow> string \<times> joi \<Rightarrow> (string \<times> val) option" where
  "missing_default raw ks =
     (case lookup raw (fst ks) of
        Some v \<Rightarrow> None
      | None \<Rightarrow> (case dflt (snd ks) of None \<Rightarrow> None | Some d \<Rightarrow> Some (fst ks, d)))"

definition normalized :: "env \<Rightarrow> schema \<Rightarrow> obj \<Rightarrow> obj" where
  "normalized e sch raw = List.map_filter (known e sch) raw @ List.map_filter (missing_default raw) sch"

definition schema_validate :: "env \<Rightarrow> schema \<Rightarrow> obj \<Rightarrow> (string \<times> string) list + obj" where
  "schema_validate e sch raw =
     (let errs = concat (map (field_errors e raw) sch) in
      if errs = [] then Inr (normalized e sch raw) else Inl errs)"

subsection \<open>The middleware factories\<close>

text \<open>
  \<open>Inl\<close> is the response that ends the request; \<open>Inr\<close> is the value stored into
  \<open>req.body\<close> (\<open>req.query\<close>) before \<open>next()\<close>. A violation is reported by its field and
  its error type, the library's message text being a rendering of the type.
\<close>

definition validate :: "env \<Rightarrow> schema \<Rightarrow> obj \<Rightarrow> response + obj" where
  "validate e sch body =
     (case schema_validate e sch body of
        Inl errs \<Rightarrow> Inl ((json 400 False (Some ''Validation error'') None)\<lparr>errors := Some errs\<rparr>)
      | Inr v \<Rightarrow> Inr v)"

definition validateQuery :: "env \<Rightarrow> schema \<Rightarrow> obj \<Rightarrow> response + obj" where
  "validateQuery e sch q =
     (case schema_validate e sch q of
        Inl errs \<Rightarrow> Inl ((json 400 False (Some ''Query validation error'') None)\<lparr>errors := Some errs\<rparr>)
      | Inr v \<Rightarrow> Inr v)"

section \<open>The relational store of database/schema.sql\<close>

datatype table = Users | Categories | Tasks

text \<open>A row gives every column its value; a column that the table lacks reads NULL.\<close>

type_synonym row = "string \<Rightarrow> val"

record db =
  table_rows :: "table \<Rightarrow> row list"
  serial :: "table \<Rightarrow> int"

text \<open>
  The statements that the routes send, with their bound parameters in place: the
  conjuncts of the WHERE clause, the assignments of SET, the columns of the result.
\<close>

datatype cond = Eq string val | Ne string val

datatype setval = Param val | CURRENT_TIMESTAMP

datatype stmt =
    SELECT "string list" table "cond list"
  | SELECT_TASK_JOIN_CATEGORY "cond list"
  | SELECT_COUNT table "cond list"
  | INSERT table "(string \<times> val) list" "string list"
  | UPDATE table "(string \<times> setval) list" "cond list" "string list"
  | DELETE table "cond list" "string list"

datatype pg_error = PgError string string

text \<open>
  The columns \<open>id\<close>, \<open>user_id\<close> and \<open>category_id\<close> are INTEGER (SERIAL) in every table
  that has them: they hold NULL or a number of 32 bits.
\<close>

definition int4 :: "int \<Rightarrow> bool" where
  "int4 n = (- 2147483648 \<le> n \<and> n \<le> 2147483647)"

definition integer_column :: "string \<Rightarrow> bool" where
  "integer_column c = (c = ''id'' \<or> c = ''user_id'' \<or> c = ''category_id'')"

definition out_of_range :: pg_error where
  "out_of_range = PgError ''22003'' ''value is out of range for type integer''"

definition invalid_integer :: pg_error where
  "invalid_integer = PgError ''22P02'' ''invalid input syntax for type integer''"

definition invalid_byte :: pg_error where
  "invalid_byte = PgError ''22021'' ''invalid byte sequence for encoding UTF8: 0x00''"

text \<open>
  A parameter arrives as text and is read in the type of its column. Text that holds the
  character NUL is refused for every column (22021). For an INTEGER column the reading
  fails on a number outside the type (22003) and on text that is no integer (22P02), which
  is what the driver sends for a number with a fraction, a boolean, a date, an array and
  an object.
\<close>

fun has_nul :: "val \<Rightarrow> bool" where
  "has_nul (Str s) = (CHR 0x00 \<in> set s)"
| "has_nul v = False"

fun integer_in :: "env \<Rightarrow> val \<Rightarrow> pg_error + val" where
  "integer_in e Null = Inr Null"
| "integer_in e (Num n) = (if int4 n then Inr (Num n) else Inl out_of_range)"
| "integer_in e (Str s) =
     (case pg_integer e s of
        None \<Rightarrow> Inl invalid_integer
      | Some n \<Rightarrow> if int4 n then Inr (Num n) else Inl out_of_range)"
| "integer_in e v = Inl invalid_integer"

text \<open>A \<open>Date\<close> bound to the DATE column \<open>due_date\<close> is kept as its calendar day.\<close>

fun date_in :: "env \<Rightarrow> val \<Rightarrow> val" where
  "date_in e (Date t) = Date (pg_date e t)"
| "date_in e v = v"

definition bound :: "env \<Rightarrow> string \<Rightarrow> val \<Rightarrow> pg_error + val" where
  "bound e c v =
     (if has_nul v then Inl invalid_byte
      else if integer_column c then integer_in e v
      else if c = ''due_date'' then Inr (date_in e v)
      else Inr v)"

text \<open>All the readings in the order of the parameters, or the first failure.\<close>

fun collect :: "('a \<Rightarrow> pg_error + 'b) \<Rightarrow> 'a list \<Rightarrow> pg_error + 'b list" where
  "collect f [] = Inr []"
| "collect f (x # xs) =
     (case f x of
        Inl err \<Rightarrow> Inl err
      | Inr y \<Rightarrow> (case collect f xs of Inl err \<Rightarrow> Inl err | Inr ys \<Rightarrow> Inr (y # ys)))"

definition bind_values :: "env \<Rightarrow> (string \<times> val) list \<Rightarrow> pg_error + (string \<times> val) list" where
  "bind_values e cvs =
     collect (\<lambda>cv. case bound e (fst cv) (snd cv) of Inl err \<Rightarrow> Inl err | Inr v \<Rightarrow> Inr (fst cv, v)) cvs"

fun bind_cond :: "env \<Rightarrow> cond \<Rightarrow> pg_error + cond" where
  "bind_cond e (Eq c v) = (case bound e c v of Inl err \<Rightarrow> Inl err | Inr x \<Rightarrow> Inr (Eq c x))"
| "bind_cond e (Ne c v) = (case bound e c v of Inl err \<Rightarrow> Inl err | Inr x \<Rightarrow> Inr (Ne c x))"

definition bind_conds :: "env \<Rightarrow> cond list \<Rightarrow> pg_error + cond list" where
  "bind_conds e conds = collect (bind_cond e) conds"

text \<open>A comparison with NULL on either side is not true.\<close>

fun holds :: "cond \<Rightarrow> row \<Rightarrow> bool" where
  "holds (Eq c v) r = (v \<noteq> Null \<and> r c = v)"
| "holds (Ne c v) r = (v \<noteq> Null \<and> r c \<noteq> Null \<and> r c \<noteq> v)"

definition matches :: "cond list \<Rightarrow> row \<Rightarrow> bool" where
  "matches conds r = list_all (\<lambda>c. holds c r) conds"

definition project :: "string list \<Rightarrow> row \<Rightarrow> obj" where
  "project cols r = map (\<lambda>c. (c, r c)) cols"

definition task_columns :: "string list" where
  "task_columns = [''id'', ''title'', ''description'', ''status'', ''priority'', ''due_date'',
                   ''created_at'', ''updated_at'', ''completed_at'']"

text \<open>\<open>tasks t LEFT JOIN categories c ON t.category_id = c.id\<close>, with the columns of GET /tasks/:id.\<close>

definition joined :: "db \<Rightarrow> row \<Rightarrow> obj" where
  "joined d t =
     project task_columns t @
     (case find (\<lambda>c. t ''category_id'' \<noteq> Null \<and> c ''id'' = t ''category_id'') (table_rows d Categories) of
        None \<Rightarrow> [(''category_id'', Null), (''category_name'', Null), (''category_color'', Null)]
      | Some c \<Rightarrow> [(''category_id'', c ''id''), (''category_name'', c ''name''),
                   (''category_color'', c ''color'')])"

text \<open>The column defaults of a new row: the serial id, the DEFAULT clauses, NULL elsewhere.\<close>

fun defaults :: "table \<Rightarrow> int \<Rightarrow> nat \<Rightarrow> row" where
  "defaults Users i ts =
     (\<lambda>c. Null)(''id'' := Num i, ''created_at'' := Date ts, ''updated_at'' := Date ts)"
| "defaults Categories i ts =
     (\<lambda>c. Null)(''id'' := Num i, ''color'' := Str ''#3B82F6'', ''created_at'' := Date ts)"
| "defaults Tasks i ts =
     (\<lambda>c. Null)(''id'' := Num i, ''status'' := Str ''pending'', ''priority'' := Str ''medium'',
                ''created_at'' := Date ts, ''updated_at'' := Date ts)"

definition assign :: "(string \<times> val) list \<Rightarrow> row \<Rightarrow> row" where
  "assign cols r = fold (\<lambda>cv x. x(fst cv := snd cv)) cols r"

fun setval_of :: "nat \<Rightarrow> setval \<Rightarrow> val" where
  "setval_of ts (Param v) = v"
| "setval_of ts CURRENT_TIMESTAMP = Date ts"

text \<open>The triggers \<open>update_users_updated_at\<close> and \<open>update_tasks_updated_at\<close>.\<close>

fun before_update :: "table \<Rightarrow> nat \<Rightarrow> row \<Rightarrow> row" where
  "before_update Users ts r = r(''updated_at'' := Date ts)"
| "before_update Tasks ts r = r(''updated_at'' := Date ts)"
| "before_update Categories ts r = r"

text \<open>
  The constraints of the schema on a row that a statement writes: NOT NULL (23502),
  CHECK (23514), UNIQUE (23505), REFERENCES (23503).
\<close>

definition refers :: "db \<Rightarrow> table \<Rightarrow> val \<Rightarrow> bool" where
  "refers d t v = (v = Null \<or> list_ex (\<lambda>p. p ''id'' = v) (table_rows d t))"

fun violation :: "db \<Rightarrow> table \<Rightarrow> row \<Rightarrow> pg_error option" where
  "violation d Users r =
     (if r ''name'' = Null \<or> r ''email'' = Null \<or> r ''password'' = Null
      then Some (PgError ''23502'' ''null value violates not-null constraint'')
      else if list_ex (\<lambda>p. p ''id'' \<noteq> r ''id'' \<and> p ''email'' = r ''email'') (table_rows d Users)
      then Some (PgError ''23505'' ''duplicate key value violates unique constraint'')
      else None)"
| "violation d Categories r =
     (if r ''name'' = Null
      then Some (PgError ''23502'' ''null value violates not-null constraint'')
      else if \<not> refers d Users (r ''user_id'')
      then Some (PgError ''23503'' ''insert or update violates foreign key constraint'')
      else None)"
| "violation d Tasks r =
     (if r ''title'' = Null
      then Some (PgError ''23502'' ''null value violates not-null constraint'')
      else if r ''status'' \<notin> set (Null # status_values) \<or> r ''priority'' \<notin> set (Null # priority_values)
      then Some (PgError ''23514'' ''new row violates check constraint'')
      else if \<not> refers d Categories (r ''category_id'') \<or> \<not> refers d Users (r ''user_id'')
      then Some (PgError ''23503'' ''insert or update violates foreign key constraint'')
      else None)"

text \<open>ON DELETE SET NULL of \<open>tasks.category_id\<close>; the update fires the trigger of tasks.\<close>

definition set_null_category :: "nat \<Rightarrow> val list \<Rightarrow> row list \<Rightarrow> row list" where
  "set_null_category ts ids rs =
     map (\<lambda>r. if r ''category_id'' \<noteq> Null \<and> r ''category_id'' \<in> set ids
              then before_update Tasks ts (r(''category_id'' := Null)) else r) rs"

definition owned_by :: "val list \<Rightarrow> row \<Rightarrow> bool" where
  "owned_by ids r = (r ''user_id'' \<noteq> Null \<and> r ''user_id'' \<in> set ids)"

fun on_delete :: "table \<Rightarrow> nat \<Rightarrow> val list \<Rightarrow> db \<Rightarrow> db" where
  "on_delete Tasks ts ids d = d"
| "on_delete Categories ts ids d =
     d\<lparr>table_rows := (table_rows d)(Tasks := set_null_category ts ids (table_rows d Tasks))\<rparr>"
| "on_delete Users ts ids d =
     (let gone = map (\<lambda>c. c ''id'') (filter (owned_by ids) (table_rows d Categories)) in
      d\<lparr>table_rows := (table_rows d)
           (Categories := filter (\<lambda>c. \<not> owned_by ids c) (table_rows d Categories),
            Tasks := set_null_category ts gone
                       (filter (\<lambda>t. \<not> owned_by ids t) (table_rows d Tasks)))\<rparr>)"

text \<open>
  One statement in its own transaction: the rows of the result, or the error, and the store
  afterwards. The parameters are read first, those of SET before those of WHERE; a
  statement whose parameter cannot be read does nothing. An INSERT then draws its serial
  number, which fails when the sequence has left the range of the column; an INSERT that
  fails on a constraint has still drawn its number. The lengths of the VARCHAR columns are
  not modelled.
\<close>

definition sequence_exhausted :: pg_error where
  "sequence_exhausted = PgError ''2200H'' ''nextval: reached maximum value of sequence''"

fun exec :: "env \<Rightarrow> stmt \<Rightarrow> db \<Rightarrow> (pg_error + obj list) \<times> db" where
  "exec e (SELECT cols t conds) d =
     (case bind_conds e conds of
        Inl err \<Rightarrow> (Inl err, d)
      | Inr cs \<Rightarrow> (Inr (map (project cols) (filter (matches cs) (table_rows d t))), d))"
| "exec e (SELECT_TASK_JOIN_CATEGORY conds) d =
     (case bind_conds e conds of
        Inl err \<Rightarrow> (Inl err, d)
      | Inr cs \<Rightarrow> (Inr (map (joined d) (filter (matches cs) (table_rows d Tasks))), d))"
| "exec e (SELECT_COUNT t conds) d =
     (case bind_conds e conds of
        Inl err \<Rightarrow> (Inl err, d)
      | Inr cs \<Rightarrow>
          (Inr [[(''count'', Num (int (length (filter (matches cs) (table_rows d t)))))]], d))"
| "exec e (INSERT t cols ret) d =
     (if \<not> distinct (map fst cols)
      then (Inl (PgError ''42701'' ''column specified more than once''), d)
      else case bind_values e cols of
        Inl err \<Rightarrow> (Inl err, d)
      | Inr vs \<Rightarrow>
          if \<not> int4 (serial d t) then (Inl sequence_exhausted, d)
          else
            let r = assign vs (defaults t (serial d t) (db_now e));
                d1 = d\<lparr>serial := (serial d)(t := serial d t + 1)\<rparr>
            in case violation d t r of
                 Some err \<Rightarrow> (Inl err, d1)
               | None \<Rightarrow> (Inr [project ret r],
                          d1\<lparr>table_rows := (table_rows d)(t := table_rows d t @ [r])\<rparr>))"
| "exec e (UPDATE t sets conds ret) d =
     (if \<not> distinct (map fst sets)
      then (Inl (PgError ''42601'' ''multiple assignments to same column''), d)
      else case bind_values e (map (\<lambda>cx. (fst cx, setval_of (db_now e) (snd cx))) sets) of
        Inl err \<Rightarrow> (Inl err, d)
      | Inr vs \<Rightarrow>
          (case bind_conds e conds of
             Inl err \<Rightarrow> (Inl err, d)
           | Inr cs \<Rightarrow>
               let write = (\<lambda>r. before_update t (db_now e) (assign vs r));
                   d1 = d\<lparr>table_rows := (table_rows d)
                          (t := map (\<lambda>r. if matches cs r then write r else r) (table_rows d t))\<rparr>;
                   written = map write (filter (matches cs) (table_rows d t))
               in case List.map_filter (violation d1 t) written of
                    err # errs \<Rightarrow> (Inl err, d)
                  | [] \<Rightarrow> (Inr (map (project ret) written), d1)))"
| "exec e (DELETE t conds ret) d =
     (case bind_conds e conds of
        Inl err \<Rightarrow> (Inl err, d)
      | Inr cs \<Rightarrow>
          let gone = filter (matches cs) (table_rows d t);
              d1 = d\<lparr>table_rows := (table_rows d)(t := filter (\<lambda>r. \<not> matches cs r) (table_rows d t))\<rparr>
          in (Inr (map (project ret) gone), on_delete t (db_now e) (map (\<lambda>r. r ''id'') gone) d1))"

section \<open>utils/database.js: \<open>query\<close>\<close>

text \<open>The store and the statements sent to it so far, in order.\<close>

record world =
  store :: db
  issued :: "stmt list"

definition query :: "env \<Rightarrow> stmt \<Rightarrow> world \<Rightarrow> (pg_error + obj list) \<times> world" where
  "query e s w =
     (case exec e s (store w) of
        (res, d) \<Rightarrow> (res, \<lparr>store = d, issued = issued w @ [s]\<rparr>))"

text \<open>The error object that a rejected \<open>query\<close> throws.\<close>

fun thrown :: "pg_error \<Rightarrow> js_error" where
  "thrown (PgError c m) =
     \<lparr>err_message = m, err_status = None, isJoi = False, first_detail = [], code = Some c,
      err_name = ''error'', err_stack = m\<rparr>"

text \<open>How a handler ends: it answers, or it hands an error to \<open>next\<close>.\<close>

datatype outcome = Respond response | Next js_error

text \<open>\<open>result.rows[0]\<close>, \<open>undefined\<close> on an empty result.\<close>

fun first_row :: "obj list \<Rightarrow> obj option" where
  "first_row [] = None"
| "first_row (r # rs) = Some r"

text \<open>Rendering a number in a template literal.\<close>

function decimal :: "nat \<Rightarrow> string" where
  "decimal n = (if n < 10 then [char_of (48 + n)] else decimal (n div 10) @ [char_of (48 + n mod 10)])"
  by pat_completeness auto
termination
  by (relation "measure id") auto

fun template_number :: "int \<Rightarrow> string" where
  "template_number n = (if n < 0 then CHR ''-'' # decimal (nat (- n)) else decimal (nat n))"

section \<open>middleware/errorHandler.js\<close>

text \<open>The \<open>switch\<close> on \<open>err.code\<close>.\<close>

definition pg_translation :: "string \<Rightarrow> nat \<times> string" where
  "pg_translation c =
     (if c = ''23505'' then (409, ''Resource already exists'')
      else if c = ''23503'' then (400, ''Referenced resource does not exist'')
      else if c = ''23502'' then (400, ''Required field is missing'')
      else if c = ''42P01'' then (500, ''Database configuration error'')
      else (500, ''Database error occurred''))"

definition errorHandler :: "env \<Rightarrow> js_error \<Rightarrow> response" where
  "errorHandler e err =
     (let error0 = (case err_status err of None \<Rightarrow> 500 | Some s \<Rightarrow> if s = 0 then 500 else s,
                    if err_message err = [] then ''Internal Server Error'' else err_message err);
          error1 = (if isJoi err then (400, first_detail err) else error0);
          error2 = (case code err of
                      None \<Rightarrow> error1
                    | Some c \<Rightarrow> if c = [] then error1 else pg_translation c);
          error3 = (if err_name err = ''JsonWebTokenError'' then (401, ''Invalid token'') else error2);
          error4 = (if err_name err = ''TokenExpiredError'' then (401, ''Token expired'') else error3);
          error5 = (if NODE_ENV e = ''production'' \<and> fst error4 = 500
                    then (fst error4, ''Internal Server Error'') else error4)
      in (json (fst error5) False (Some (snd error5)) None)
           \<lparr>stack := (if NODE_ENV e = ''development'' then Some (err_stack err) else None)\<rparr>)"

text \<open>A route ends with its handler's answer or with the answer of \<open>errorHandler\<close>.\<close>

definition finish :: "env \<Rightarrow> outcome \<times> world \<Rightarrow> response \<times> world" where
  "finish e ow = (case fst ow of Respond r \<Rightarrow> (r, snd ow) | Next err \<Rightarrow> (errorHandler e err, snd ow))"

section \<open>middleware/auth.js\<close>

text \<open>\<open>s.split(sep)\<close> for a one-character separator.\<close>

fun split_on :: "char \<Rightarrow> string \<Rightarrow> string list" where
  "split_on sep [] = [[]]"
| "split_on sep (c # cs) =
     (if c = sep then [] # split_on sep cs
      else case split_on sep cs of [] \<Rightarrow> [[c]] | p # ps \<Rightarrow> (c # p) # ps)"

text \<open>\<open>authHeader && authHeader.split(' ')[1]\<close>; \<open>None\<close> is \<open>undefined\<close>.\<close>

definition bearer :: "string option \<Rightarrow> string option" where
  "bearer authHeader =
     (case authHeader of
        None \<Rightarrow> None
      | Some h \<Rightarrow> if h = [] then Some []
                  else (case split_on CHR '' '' h of a # b # rest \<Rightarrow> Some b | parts \<Rightarrow> None))"

text \<open>The request is answered, or \<open>req.user\<close> is set and \<open>next()\<close> is called.\<close>

datatype auth_outcome = Rejected response | Authenticated obj

definition authenticateToken :: "env \<Rightarrow> string option \<Rightarrow> world \<Rightarrow> auth_outcome \<times> world" where
  "authenticateToken e authHeader w =
     (case bearer authHeader of
        None \<Rightarrow> (Rejected (json 401 False (Some ''Access token required'') None), w)
      | Some token \<Rightarrow>
          if token = [] then (Rejected (json 401 False (Some ''Access token required'') None), w)
          else (case verifyToken e token of
            Inl err \<Rightarrow> (Rejected (json 403 False (Some ''Invalid or expired token'') None), w)
          | Inr decoded \<Rightarrow>
              (case query e (SELECT [''id'', ''name'', ''email'', ''avatar_url'', ''created_at''] Users
                               [Eq ''id'' (param (lookup decoded ''userId''))]) w of
                 (Inl err, w1) \<Rightarrow>
                   (Rejected (json 403 False (Some ''Invalid or expired token'') None), w1)
               | (Inr [], w1) \<Rightarrow> (Rejected (json 401 False (Some ''User not found'') None), w1)
               | (Inr (u # us), w1) \<Rightarrow> (Authenticated u, w1))))"

section \<open>routes/tasks.js\<close>

text \<open>
  Every route below runs behind \<open>authenticateToken\<close>: \<open>userId\<close> is \<open>req.user.id\<close>, and
  \<open>taskId\<close> (\<open>categoryId\<close>) is the integer that \<open>req.params.id\<close> denotes, of whatever
  size. A path segment that denotes no integer is outside the routes as they are modelled
  here; the storage engine refuses it as a parameter (22P02) in the way it refuses an
  integer outside the column's type (22003).
\<close>

subsection \<open>GET /tasks: the pagination block\<close>

record pagination =
  currentPage :: int
  totalPages :: int
  totalTasks :: int
  hasNextPage :: bool
  hasPrevPage :: bool

text \<open>
  \<open>page\<close> and \<open>limit\<close> come from the validated query, \<open>n\<close> is the parsed result of the
  count statement. The division is exact, as it is in floating point for counts of rows.
\<close>

definition tasks_pagination :: "int \<Rightarrow> int \<Rightarrow> int \<Rightarrow> pagination" where
  "tasks_pagination page limit n =
     (let pages = \<lceil>rat_of_int n / rat_of_int limit\<rceil> in
      \<lparr>currentPage = page, totalPages = pages, totalTasks = n,
       hasNextPage = (page < pages), hasPrevPage = (page > 1)\<rparr>)"

subsection \<open>GET /tasks/:id\<close>

definition own_task :: "int \<Rightarrow> int \<Rightarrow> cond list" where
  "own_task taskId userId = [Eq ''id'' (Num taskId), Eq ''user_id'' (Num userId)]"

definition tasks_get_id_handler :: "env \<Rightarrow> int \<Rightarrow> int \<Rightarrow> world \<Rightarrow> outcome \<times> world" where
  "tasks_get_id_handler e userId taskId w =
     (case query e (SELECT_TASK_JOIN_CATEGORY (own_task taskId userId)) w of
        (Inl err, w1) \<Rightarrow> (Next (thrown err), w1)
      | (Inr [], w1) \<Rightarrow> (Respond (json 404 False (Some ''Task not found'') None), w1)
      | (Inr (r # rs), w1) \<Rightarrow> (Respond (json 200 True None (Some r)), w1))"

definition tasks_get_id :: "env \<Rightarrow> int \<Rightarrow> int \<Rightarrow> world \<Rightarrow> response \<times> world" where
  "tasks_get_id e userId taskId w = finish e (tasks_get_id_handler e userId taskId w)"

subsection \<open>POST /tasks\<close>

definition tasks_post_handler :: "env \<Rightarrow> int \<Rightarrow> obj \<Rightarrow> world \<Rightarrow> outcome \<times> world" where
  "tasks_post_handler e userId body w =
     (case query e (INSERT Tasks
                      [(''title'', param (lookup body ''title'')),
                       (''description'', param (lookup body ''description'')),
                       (''status'', param (lookup body ''status'')),
                       (''priority'', param (lookup body ''priority'')),
                       (''due_date'', param (lookup body ''due_date'')),
                       (''category_id'', param (lookup body ''category_id'')),
                       (''user_id'', Num userId)]
                      [''id'', ''title'', ''description'', ''status'', ''priority'', ''due_date'',
                       ''created_at'', ''updated_at'']) w of
        (Inl err, w1) \<Rightarrow> (Next (thrown err), w1)
      | (Inr rs, w1) \<Rightarrow>
          (Respond (json 201 True (Some ''Task created successfully'') (first_row rs)), w1))"

definition tasks_post :: "env \<Rightarrow> int \<Rightarrow> obj \<Rightarrow> world \<Rightarrow> response \<times> world" where
  "tasks_post e userId body w =
     (case validate e taskSchemas_create body of
        Inl r \<Rightarrow> (r, w)
      | Inr v \<Rightarrow> finish e (tasks_post_handler e userId v w))"

subsection \<open>PUT /tasks/:id\<close>

text \<open>The loop over \<open>Object.keys(updates)\<close>: one assignment for each key that is not \<open>undefined\<close>.\<close>

definition updateFields :: "obj \<Rightarrow> (string \<times> setval) list" where
  "updateFields updates = map (\<lambda>kv. (fst kv, Param (snd kv))) updates"

text \<open>The derived assignment to \<open>completed_at\<close>, from the new and the stored status.\<close>

definition completed_at_field :: "env \<Rightarrow> obj \<Rightarrow> obj \<Rightarrow> (string \<times> setval) list" where
  "completed_at_field e updates existing =
     (if lookup updates ''status'' = Some (Str ''completed'')
         \<and> lookup existing ''status'' \<noteq> Some (Str ''completed'')
      then [(''completed_at'', Param (Date (js_now e)))]
      else if truthy (lookup updates ''status'') \<and> lookup updates ''status'' \<noteq> Some (Str ''completed'')
      then [(''completed_at'', Param Null)]
      else [])"

definition tasks_put_id_handler :: "env \<Rightarrow> int \<Rightarrow> int \<Rightarrow> obj \<Rightarrow> world \<Rightarrow> outcome \<times> world" where
  "tasks_put_id_handler e userId taskId updates w =
     (case query e (SELECT [''id'', ''status''] Tasks (own_task taskId userId)) w of
        (Inl err, w1) \<Rightarrow> (Next (thrown err), w1)
      | (Inr [], w1) \<Rightarrow> (Respond (json 404 False (Some ''Task not found'') None), w1)
      | (Inr (existing # others), w1) \<Rightarrow>
          (let fields = updateFields updates @ completed_at_field e updates existing in
           if fields = [] then (Respond (json 400 False (Some ''No valid fields to update'') None), w1)
           else (case query e (UPDATE Tasks (fields @ [(''updated_at'', CURRENT_TIMESTAMP)])
                                 (own_task taskId userId) task_columns) w1 of
                   (Inl err, w2) \<Rightarrow> (Next (thrown err), w2)
                 | (Inr rs, w2) \<Rightarrow>
                     (Respond (json 200 True (Some ''Task updated successfully'') (first_row rs)), w2))))"

definition tasks_put_id :: "env \<Rightarrow> int \<Rightarrow> int \<Rightarrow> obj \<Rightarrow> world \<Rightarrow> response \<times> world" where
  "tasks_put_id e userId taskId body w =
     (case validate e taskSchemas_update body of
        Inl r \<Rightarrow> (r, w)
      | Inr v \<Rightarrow> finish e (tasks_put_id_handler e userId taskId v w))"

subsection \<open>DELETE /tasks/:id\<close>

definition tasks_delete_id_handler :: "env \<Rightarrow> int \<Rightarrow> int \<Rightarrow> world \<Rightarrow> outcome \<times> world" where
  "tasks_delete_id_handler e userId taskId w =
     (case query e (DELETE Tasks (own_task taskId userId) [''id'']) w of
        (Inl err, w1) \<Rightarrow> (Next (thrown err), w1)
      | (Inr [], w1) \<Rightarrow> (Respond (json 404 False (Some ''Task not found'') None), w1)
      | (Inr (r # rs), w1) \<Rightarrow> (Respond (json 200 True (Some ''Task deleted successfully'') None), w1))"

definition tasks_delete_id :: "env \<Rightarrow> int \<Rightarrow> int \<Rightarrow> world \<Rightarrow> response \<times> world" where
  "tasks_delete_id e userId taskId w = finish e (tasks_delete_id_handler e userId taskId w)"

section \<open>routes/categories.js\<close>

definition own_category :: "int \<Rightarrow> int \<Rightarrow> cond list" where
  "own_category categoryId userId = [Eq ''id'' (Num categoryId), Eq ''user_id'' (Num userId)]"

subsection \<open>POST /categories\<close>

text \<open>\<open>{...result.rows[0], task_count: 0}\<close>\<close>

definition with_task_count :: "obj option \<Rightarrow> obj" where
  "with_task_count r = (case r of None \<Rightarrow> [] | Some ob \<Rightarrow> ob) @ [(''task_count'', Num 0)]"

definition categories_post_handler :: "env \<Rightarrow> int \<Rightarrow> obj \<Rightarrow> world \<Rightarrow> outcome \<times> world" where
  "categories_post_handler e userId body w =
     (case query e (SELECT [''id''] Categories
                      [Eq ''name'' (param (lookup body ''name'')), Eq ''user_id'' (Num userId)]) w of
        (Inl err, w1) \<Rightarrow> (Next (thrown err), w1)
      | (Inr (x # xs), w1) \<Rightarrow>
          (Respond (json 409 False (Some ''Category with this name already exists'') None), w1)
      | (Inr [], w1) \<Rightarrow>
          (case query e (INSERT Categories
                           [(''name'', param (lookup body ''name'')),
                            (''color'', param (lookup body ''color'')),
                            (''user_id'', Num userId)]
                           [''id'', ''name'', ''color'', ''created_at'']) w1 of
             (Inl err, w2) \<Rightarrow> (Next (thrown err), w2)
           | (Inr rs, w2) \<Rightarrow>
               (Respond (json 201 True (Some ''Category created successfully'')
                           (Some (with_task_count (first_row rs)))), w2)))"

definition categories_post :: "env \<Rightarrow> int \<Rightarrow> obj \<Rightarrow> world \<Rightarrow> response \<times> world" where
  "categories_post e userId body w =
     (case validate e categorySchemas_create body of
        Inl r \<Rightarrow> (r, w)
      | Inr v \<Rightarrow> finish e (categories_post_handler e userId v w))"

subsection \<open>PUT /categories/:id\<close>

text \<open>The handler from \<open>// Build update query dynamically\<close> on.\<close>

definition categories_put_id_update :: "env \<Rightarrow> int \<Rightarrow> int \<Rightarrow> obj \<Rightarrow> world \<Rightarrow> outcome \<times> world" where
  "categories_put_id_update e userId categoryId updates w =
     (let fields = updateFields updates in
      if fields = [] then (Respond (json 400 False (Some ''No valid fields to update'') None), w)
      else (case query e (UPDATE Categories fields (own_category categoryId userId)
                            [''id'', ''name'', ''color'', ''created_at'']) w of
              (Inl err, w1) \<Rightarrow> (Next (thrown err), w1)
            | (Inr rs, w1) \<Rightarrow>
                (Respond (json 200 True (Some ''Category updated successfully'') (first_row rs)), w1)))"

text \<open>The check for another category of the user with the new name.\<close>

definition categories_put_id_named :: "env \<Rightarrow> int \<Rightarrow> int \<Rightarrow> obj \<Rightarrow> world \<Rightarrow> outcome \<times> world" where
  "categories_put_id_named e userId categoryId updates w =
     (if truthy (lookup updates ''name'')
      then (case query e (SELECT [''id''] Categories
                            [Eq ''name'' (param (lookup updates ''name'')), Eq ''user_id'' (Num userId),
                             Ne ''id'' (Num categoryId)]) w of
              (Inl err, w1) \<Rightarrow> (Next (thrown err), w1)
            | (Inr (x # xs), w1) \<Rightarrow>
                (Respond (json 409 False (Some ''Category with this name already exists'') None), w1)
            | (Inr [], w1) \<Rightarrow> categories_put_id_update e userId categoryId updates w1)
      else categories_put_id_update e userId categoryId updates w)"

definition categories_put_id_handler :: "env \<Rightarrow> int \<Rightarrow> int \<Rightarrow> obj \<Rightarrow> world \<Rightarrow> outcome \<times> world" where
  "categories_put_id_handler e userId categoryId updates w =
     (case query e (SELECT [''id'', ''user_id''] Categories [Eq ''id'' (Num categoryId)]) w of
        (Inl err, w1) \<Rightarrow> (Next (thrown err), w1)
      | (Inr [], w1) \<Rightarrow> (Respond (json 404 False (Some ''Category not found'') None), w1)
      | (Inr (existing # others), w1) \<Rightarrow>
          if lookup existing ''user_id'' \<noteq> Some (Num userId)
          then (Respond (json 403 False (Some ''Cannot update default categories'') None), w1)
          else categories_put_id_named e userId categoryId updates w1)"

definition categories_put_id :: "env \<Rightarrow> int \<Rightarrow> int \<Rightarrow> obj \<Rightarrow> world \<Rightarrow> response \<times> world" where
  "categories_put_id e userId categoryId body w =
     (case validate e categorySchemas_update body of
        Inl r \<Rightarrow> (r, w)
      | Inr v \<Rightarrow> finish e (categories_put_id_handler e userId categoryId v w))"

subsection \<open>DELETE /categories/:id\<close>

text \<open>
  \<open>parseInt\<close> of the cell of a count (\<open>None\<close> is NaN). The cell holds the number: the
  decimal text that the driver delivers and its parsing cancel.
\<close>

fun parseInt_count :: "val option \<Rightarrow> int option" where
  "parseInt_count (Some (Num n)) = Some n"
| "parseInt_count v = None"

text \<open>Reading a property of \<open>undefined\<close> throws.\<close>

definition type_error :: js_error where
  "type_error =
     \<lparr>err_message = ''Cannot read properties of undefined'', err_status = None, isJoi = False,
      first_detail = [], code = None, err_name = ''TypeError'',
      err_stack = ''TypeError: Cannot read properties of undefined''\<rparr>"

definition blocked_message :: "int \<Rightarrow> string" where
  "blocked_message taskCount =
     ''Cannot delete category. It has '' @ template_number taskCount
       @ '' task(s). Please reassign or delete the tasks first.''"

text \<open>The last statement of the handler.\<close>

definition categories_delete_id_delete :: "env \<Rightarrow> int \<Rightarrow> int \<Rightarrow> world \<Rightarrow> outcome \<times> world" where
  "categories_delete_id_delete e userId categoryId w =
     (case query e (DELETE Categories (own_category categoryId userId) []) w of
        (Inl err, w1) \<Rightarrow> (Next (thrown err), w1)
      | (Inr gone, w1) \<Rightarrow>
          (Respond (json 200 True (Some ''Category deleted successfully'') None), w1))"

text \<open>The handler from \<open>// Check if category has tasks\<close> on; NaN is not greater than 0.\<close>

definition categories_delete_id_checked :: "env \<Rightarrow> int \<Rightarrow> int \<Rightarrow> world \<Rightarrow> outcome \<times> world" where
  "categories_delete_id_checked e userId categoryId w =
     (case query e (SELECT_COUNT Tasks
                      [Eq ''category_id'' (Num categoryId), Eq ''user_id'' (Num userId)]) w of
        (Inl err, w1) \<Rightarrow> (Next (thrown err), w1)
      | (Inr [], w1) \<Rightarrow> (Next type_error, w1)
      | (Inr (r # rs), w1) \<Rightarrow>
          (case parseInt_count (lookup r ''count'') of
             None \<Rightarrow> categories_delete_id_delete e userId categoryId w1
           | Some taskCount \<Rightarrow>
               if taskCount > 0
               then (Respond (json 400 False (Some (blocked_message taskCount)) None), w1)
               else categories_delete_id_delete e userId categoryId w1))"

definition categories_delete_id_handler :: "env \<Rightarrow> int \<Rightarrow> int \<Rightarrow> world \<Rightarrow> outcome \<times> world" where
  "categories_delete_id_handler e userId categoryId w =
     (case query e (SELECT [''id'', ''user_id''] Categories [Eq ''id'' (Num categoryId)]) w of
        (Inl err, w1) \<Rightarrow> (Next (thrown err), w1)
      | (Inr [], w1) \<Rightarrow> (Respond (json 404 False (Some ''Category not found'') None), w1)
      | (Inr (existing # others), w1) \<Rightarrow>
          if lookup existing ''user_id'' \<noteq> Some (Num userId)
          then (Respond (json 403 False (Some ''Cannot delete default categories'') None), w1)
          else categories_delete_id_checked e userId categoryId w1)"

definition categories_delete_id :: "env \<Rightarrow> int \<Rightarrow> int \<Rightarrow> world \<Rightarrow> response \<times> world" where
  "categories_delete_id e userId categoryId w =
     finish e (categories_delete_id_handler e userId categoryId w)"

section \<open>routes/users.js\<close>

subsection \<open>PUT /users/profile\<close>

text \<open>The handler from \<open>// Build update query dynamically\<close> on.\<close>

definition users_put_profile_update :: "env \<Rightarrow> int \<Rightarrow> obj \<Rightarrow> world \<Rightarrow> outcome \<times> world" where
  "users_put_profile_update e userId updates w =
     (let fields = updateFields updates in
      if fields = [] then (Respond (json 400 False (Some ''No valid fields to update'') None), w)
      else (case query e (UPDATE Users (fields @ [(''updated_at'', CURRENT_TIMESTAMP)])
                            [Eq ''id'' (Num userId)]
                            [''id'', ''name'', ''email'', ''avatar_url'', ''created_at'', ''updated_at'']) w of
              (Inl err, w1) \<Rightarrow> (Next (thrown err), w1)
            | (Inr rs, w1) \<Rightarrow>
                (Respond (json 200 True (Some ''Profile updated successfully'') (first_row rs)), w1)))"

definition users_put_profile_handler :: "env \<Rightarrow> int \<Rightarrow> obj \<Rightarrow> world \<Rightarrow> outcome \<times> world" where
  "users_put_profile_handler e userId updates w =
     (if truthy (lookup updates ''email'')
      then (case query e (SELECT [''id''] Users
                            [Eq ''email'' (param (lookup updates ''email'')), Ne ''id'' (Num userId)]) w of
              (Inl err, w1) \<Rightarrow> (Next (thrown err), w1)
            | (Inr (x # xs), w1) \<Rightarrow>
                (Respond (json 409 False (Some ''Email is already taken'') None), w1)
            | (Inr [], w1) \<Rightarrow> users_put_profile_update e userId updates w1)
      else users_put_profile_update e userId updates w)"

definition users_put_profile :: "env \<Rightarrow> int \<Rightarrow> obj \<Rightarrow> world \<Rightarrow> response \<times> world" where
  "users_put_profile e userId body w =
     (case validate e userSchemas_updateProfile body of
        Inl r \<Rightarrow> (r, w)
      | Inr v \<Rightarrow> finish e (users_put_profile_handler e userId v w))"

section \<open>Notions used by the properties\<close>

text \<open>The statements that a request has sent: those of \<open>w'\<close> that \<open>w\<close> did not have yet.\<close>

definition sent :: "world \<Rightarrow> world \<Rightarrow> stmt list" where
  "sent w w' = drop (length (issued w)) (issued w')"

fun where_clause :: "stmt \<Rightarrow> cond list" where
  "where_clause (SELECT cols t conds) = conds"
| "where_clause (SELECT_TASK_JOIN_CATEGORY conds) = conds"
| "where_clause (SELECT_COUNT t conds) = conds"
| "where_clause (INSERT t cols ret) = []"
| "where_clause (UPDATE t sets conds ret) = conds"
| "where_clause (DELETE t conds ret) = conds"

fun is_update :: "stmt \<Rightarrow> bool" where
  "is_update (UPDATE t sets conds ret) = True"
| "is_update s = False"

text \<open>The task with this id that the user owns.\<close>

definition stored_task :: "db \<Rightarrow> int \<Rightarrow> int \<Rightarrow> row option" where
  "stored_task d userId taskId =
     find (\<lambda>r. r ''id'' = Num taskId \<and> r ''user_id'' = Num userId) (table_rows d Tasks)"

text \<open>
  The category with this id, a row as the table holds it: its id and its owner are cells
  of INTEGER columns, hence NULL or a number of 32 bits.
\<close>

definition integer_cell :: "val \<Rightarrow> bool" where
  "integer_cell v = (case v of Null \<Rightarrow> True | Num n \<Rightarrow> int4 n | x \<Rightarrow> False)"

definition stored_category :: "db \<Rightarrow> int \<Rightarrow> row option" where
  "stored_category d categoryId =
     (case find (\<lambda>r. r ''id'' = Num categoryId) (table_rows d Categories) of
        None \<Rightarrow> None
      | Some x \<Rightarrow> if integer_cell (x ''id'') \<and> integer_cell (x ''user_id'') then Some x else None)"

text \<open>
  A store as the schema types it: the cells of the INTEGER columns are NULL or numbers of
  32 bits. A statement that runs on such a store leaves such a store, and in such a store
  the category with an id is the first row that has the id.
\<close>

definition typed_row :: "row \<Rightarrow> bool" where
  "typed_row r =
     (integer_cell (r ''id'') \<and> integer_cell (r ''user_id'') \<and> integer_cell (r ''category_id''))"

definition typed :: "db \<Rightarrow> bool" where
  "typed d =
     (list_all typed_row (table_rows d Users) \<and> list_all typed_row (table_rows d Categories)
      \<and> list_all typed_row (table_rows d Tasks))"

section \<open>An example store and environment\<close>

text \<open>
  The rows that schema.sql inserts, one category of the second user and one task of the
  first user in it. Dates and times are milliseconds since the epoch.
\<close>

definition user_row :: "int \<Rightarrow> string \<Rightarrow> string \<Rightarrow> row" where
  "user_row i n m =
     (defaults Users i 0)(''name'' := Str n, ''email'' := Str m,
        ''password'' := Str ''$2a$10$92IXUNpkjO0rOQ5byMi.Ye4oKoEa3Ro9llC/.og/at2.uheWG/igi'')"

definition category_row :: "int \<Rightarrow> string \<Rightarrow> string \<Rightarrow> val \<Rightarrow> row" where
  "category_row i n c u = (defaults Categories i 0)(''name'' := Str n, ''color'' := Str c, ''user_id'' := u)"

definition task_row :: "int \<Rightarrow> string \<Rightarrow> string \<Rightarrow> string \<Rightarrow> string \<Rightarrow> nat \<Rightarrow> int \<Rightarrow> int \<Rightarrow> row" where
  "task_row i t ds st pr due c u =
     (defaults Tasks i 0)(''title'' := Str t, ''description'' := Str ds, ''status'' := Str st,
        ''priority'' := Str pr, ''due_date'' := Date due, ''category_id'' := Num c, ''user_id'' := Num u)"

definition demo_db :: db where
  "demo_db =
     \<lparr>table_rows = (\<lambda>t. case t of
          Users \<Rightarrow>
            [user_row 1 ''Admin User'' ''admin@example.com'',
             user_row 2 ''John Doe'' ''user@example.com'']
        | Categories \<Rightarrow>
            [category_row 1 ''Work'' ''#EF4444'' Null,
             category_row 2 ''Personal'' ''#10B981'' Null,
             category_row 3 ''Shopping'' ''#F59E0B'' Null,
             category_row 4 ''Health'' ''#8B5CF6'' Null,
             category_row 5 ''Reading'' ''#3B82F6'' (Num 2)]
        | Tasks \<Rightarrow>
            [task_row 1 ''Complete project proposal'' ''Write and submit the Q4 project proposal''
               ''pending'' ''high'' 1705276800000 1 1,
             task_row 2 ''Buy groceries'' ''Milk, bread, eggs, vegetables''
               ''pending'' ''medium'' 1704844800000 3 1,
             task_row 3 ''Doctor appointment'' ''Annual health checkup''
               ''pending'' ''high'' 1705708800000 4 1,
             task_row 4 ''Learn React'' ''Complete React tutorial and build a project''
               ''in_progress'' ''medium'' 1706140800000 2 2,
             task_row 5 ''Team meeting'' ''Weekly team sync meeting''
               ''completed'' ''medium'' 1704672000000 1 2,
             task_row 6 ''Return the atlas'' ''Borrowed in May''
               ''pending'' ''low'' 1706140800000 5 1]),
      serial = (\<lambda>t. case t of Users \<Rightarrow> 3 | Categories \<Rightarrow> 6 | Tasks \<Rightarrow> 7)\<rparr>"

definition demo_world :: world where
  "demo_world = \<lparr>store = demo_db, issued = []\<rparr>"

definition jwt_error :: "string \<Rightarrow> string \<Rightarrow> js_error" where
  "jwt_error n m =
     \<lparr>err_message = m, err_status = None, isJoi = False, first_detail = [], code = None,
      err_name = n, err_stack = n @ '': '' @ m\<rparr>"

fun digits_value :: "nat \<Rightarrow> string \<Rightarrow> nat option" where
  "digits_value acc [] = Some acc"
| "digits_value acc (c # cs) =
     (if c \<in> set ''0123456789'' then digits_value (10 * acc + (of_char c - 48)) cs else None)"

text \<open>
  An environment for the examples: it reads one date and the unsigned decimal numbers,
  and knows a token of each user, an expired token and no other. Process and session run
  in UTC: a DATE column gives back the midnight that begins the day.
\<close>

definition demo_env :: "nat \<Rightarrow> env" where
  "demo_env now =
     \<lparr>isoDate = (\<lambda>s. if s = ''2024-01-15'' then Some 1705276800000 else None),
      isEmail = (\<lambda>s. CHR ''@'' \<in> set s),
      isUri = (\<lambda>s. take 7 s = ''http://'' \<or> take 8 s = ''https://''),
      toNumber = (\<lambda>s. if s = [] then None else map_option (\<lambda>n. Num (int n)) (digits_value 0 s)),
      verifyToken = (\<lambda>t. if t = ''token.of.admin'' then Inr [(''userId'', Num 1)]
                          else if t = ''token.of.john'' then Inr [(''userId'', Num 2)]
                          else if t = ''token.of.last.year'' then Inl (jwt_error ''TokenExpiredError'' ''jwt expired'')
                          else Inl (jwt_error ''JsonWebTokenError'' ''invalid signature'')),
      js_now = now,
      db_now = now,
      NODE_ENV = ''production'',
      pg_integer = (\<lambda>s. if s = [] then None else map_option int (digits_value 0 s)),
      pg_date = (\<lambda>t. t - t mod 86400000)\<rparr>"



text \<open>The second user files the own task 4 under the own category 5.\<close>

definition demo_filed :: world where
  "demo_filed = snd (tasks_put_id (demo_env 1000) 2 4 [(''category_id'', Num 5)] demo_world)"

section \<open>Pagination of the task list\<close>

lemma ceiling_of_int_div:
  "\<lceil>(of_int a :: 'a :: {floor_ceiling}) / of_int b\<rceil> = - ((- a) div b)"
proof -
  have "\<lfloor>(of_int (- a) :: 'a) / of_int b\<rfloor> = (- a) div b"
    by (rule floor_divide_of_int_eq)
  then show ?thesis
    by (simp add: ceiling_def)
qed

text \<open>
  Claim C5. For a count \<open>n \<ge> 0\<close> of tasks, \<open>limit \<ge> 1\<close> and \<open>page \<ge> 1\<close>, the pagination
  block of the list response has \<open>totalPages\<close> equal to the ceiling of \<open>n / limit\<close> (the
  least number of pages of \<open>limit\<close> rows that hold \<open>n\<close> rows), \<open>hasNextPage\<close> equal to
  \<open>page < totalPages\<close> and \<open>hasPrevPage\<close> equal to \<open>page > 1\<close>. With 23 tasks and limit 10
  there are 3 pages, and page 3 has no next page and has a previous one.
\<close>

theorem pagination_block:
  assumes "0 \<le> n" and "1 \<le> limit" and "1 \<le> page"
  shows "totalPages (tasks_pagination page limit n) = \<lceil>real_of_int n / real_of_int limit\<rceil>
       \<and> n \<le> totalPages (tasks_pagination page limit n) * limit
       \<and> (totalPages (tasks_pagination page limit n) - 1) * limit < n
       \<and> hasNextPage (tasks_pagination page limit n) = (page < totalPages (tasks_pagination page limit n))
       \<and> hasPrevPage (tasks_pagination page limit n) = (page > 1)
       \<and> currentPage (tasks_pagination page limit n) = page
       \<and> totalTasks (tasks_pagination page limit n) = n
       \<and> tasks_pagination 3 10 23 =
           \<lparr>currentPage = 3, totalPages = 3, totalTasks = 23, hasNextPage = False, hasPrevPage = True\<rparr>"
proof -
  define k where "k = \<lceil>rat_of_int n / rat_of_int limit\<rceil>"
  have kdiv: "k = - ((- n) div limit)"
    unfolding k_def by (rule ceiling_of_int_div)
  have kreal: "k = \<lceil>real_of_int n / real_of_int limit\<rceil>"
    unfolding kdiv by (rule ceiling_of_int_div [symmetric])
  have pos: "0 < limit"
    using assms(2) by simp
  define r where "r = (- n) mod limit"
  have eq: "k * limit = n + r"
  proof -
    have "(- n) div limit * limit + r = - n"
      unfolding r_def by simp
    then show ?thesis
      unfolding kdiv by (simp add: algebra_simps)
  qed
  have m0: "0 \<le> r" and m1: "r < limit"
    unfolding r_def using pos by simp_all
  have up: "n \<le> k * limit"
    using eq m0 by simp
  have lo: "(k - 1) * limit < n"
    using eq m1 by (simp add: algebra_simps)
  have ex: "\<lceil>rat_of_int 23 / rat_of_int 10\<rceil> = 3"
    unfolding ceiling_of_int_div by simp
  show ?thesis
    using up lo kreal ex by (simp add: tasks_pagination_def Let_def k_def)
qed

theorem pagination_block_witness:
  "(0::int) \<le> 45 \<and> (1::int) \<le> 20 \<and> (1::int) \<le> 2
   \<and> totalPages (tasks_pagination 2 20 45) = 3
   \<and> hasNextPage (tasks_pagination 2 20 45) \<and> hasPrevPage (tasks_pagination 2 20 45)"
proof -
  have a: "(0::int) \<le> 45" and b: "(1::int) \<le> 20" and c: "(1::int) \<le> 2"
    by simp_all
  have k: "\<lceil>real_of_int 45 / real_of_int 20\<rceil> = 3"
    unfolding ceiling_of_int_div by simp
  show ?thesis
    using pagination_block [OF a b c] k by simp
qed

section \<open>Rejection of a token that does not verify\<close>

text \<open>
  Claim C4, as amended. A request whose bearer token fails verification (the verifier
  throws, whatever the reason) is answered with status 403 and the one message
  ``Invalid or expired token''; no user is attached, no statement is sent and the store
  is as before.
\<close>

theorem failed_token_is_rejected:
  assumes "bearer authHeader = Some token" and "token \<noteq> []" and "verifyToken e token = Inl err"
  shows "authenticateToken e authHeader w =
           (Rejected (json 403 False (Some ''Invalid or expired token'') None), w)"
  using assms by (simp add: authenticateToken_def)

theorem failed_token_is_rejected_witness:
  "bearer (Some ''Bearer token.of.last.year'') = Some ''token.of.last.year''
   \<and> ''token.of.last.year'' \<noteq> []
   \<and> verifyToken (demo_env 1000) ''token.of.last.year'' = Inl (jwt_error ''TokenExpiredError'' ''jwt expired'')
   \<and> authenticateToken (demo_env 1000) (Some ''Bearer token.of.last.year'') demo_world =
        (Rejected (json 403 False (Some ''Invalid or expired token'') None), demo_world)"
proof -
  have a: "bearer (Some ''Bearer token.of.last.year'') = Some ''token.of.last.year''"
    by (simp add: bearer_def)
  have b: "''token.of.last.year'' \<noteq> []"
    by simp
  have c: "verifyToken (demo_env 1000) ''token.of.last.year'' = Inl (jwt_error ''TokenExpiredError'' ''jwt expired'')"
    by (simp add: demo_env_def)
  show ?thesis
    using failed_token_is_rejected [OF a b c, of demo_world] a c by simp
qed

text \<open>A token with a bad signature is answered with 403, not with 401.\<close>

theorem failed_token_status_counterexample:
  "verifyToken (demo_env 1000) ''forged'' = Inl (jwt_error ''JsonWebTokenError'' ''invalid signature'')
   \<and> fst (authenticateToken (demo_env 1000) (Some ''Bearer forged'') demo_world) =
        Rejected \<lparr>status = 403, success = False, message = Some ''Invalid or expired token'',
                  data = None, errors = None, stack = None\<rparr>"
  by (simp add: authenticateToken_def bearer_def demo_env_def json_def)

section \<open>Facts about statements, assignments and validation\<close>

lemma matches_own_task: "matches (own_task t u) r = (r ''id'' = Num t \<and> r ''user_id'' = Num u)"
  by (auto simp: matches_def own_task_def)

lemmas store_defs = bind_values_def bind_conds_def bound_def integer_column_def int4_def
  integer_cell_def out_of_range_def invalid_integer_def invalid_byte_def sequence_exhausted_def
  safe_def

lemma bind_own_task:
  "bind_conds e (own_task t u) = (if int4 t \<and> int4 u then Inr (own_task t u) else Inl out_of_range)"
  by (simp add: bind_conds_def own_task_def bound_def integer_column_def)

lemma bind_own_category:
  "bind_conds e (own_category c u) = (if int4 c \<and> int4 u then Inr (own_category c u) else Inl out_of_range)"
  by (simp add: bind_conds_def own_category_def bound_def integer_column_def)

lemma bind_id:
  "bind_conds e [Eq ''id'' (Num c)] = (if int4 c then Inr [Eq ''id'' (Num c)] else Inl out_of_range)"
  by (simp add: bind_conds_def bound_def integer_column_def)

lemma bind_count:
  "bind_conds e [Eq ''category_id'' (Num c), Eq ''user_id'' (Num u)] =
     (if int4 c \<and> int4 u then Inr [Eq ''category_id'' (Num c), Eq ''user_id'' (Num u)]
      else Inl out_of_range)"
  by (simp add: bind_conds_def bound_def integer_column_def)

lemma bind_email:
  "bind_conds e [Eq ''email'' v, Ne ''id'' (Num u)] =
     (if has_nul v then Inl invalid_byte
      else if int4 u then Inr [Eq ''email'' v, Ne ''id'' (Num u)] else Inl out_of_range)"
  by (simp add: bind_conds_def bound_def integer_column_def)

lemma bind_name:
  "bind_conds e [Eq ''name'' v, Eq ''user_id'' (Num u), Ne ''id'' (Num c)] =
     (if has_nul v then Inl invalid_byte
      else if int4 u \<and> int4 c then Inr [Eq ''name'' v, Eq ''user_id'' (Num u), Ne ''id'' (Num c)]
      else Inl out_of_range)"
  by (simp add: bind_conds_def bound_def integer_column_def)

lemma bind_values_keys: "bind_values e cvs = Inr vs \<Longrightarrow> map fst vs = map fst cvs"
  unfolding bind_values_def
  by (induction cvs arbitrary: vs) (auto split: sum.splits)

lemma bind_values_plain:
  "bind_values e cvs = Inr vs \<Longrightarrow> \<not> integer_column k \<Longrightarrow> k \<noteq> ''due_date'' \<Longrightarrow> map_of vs k = map_of cvs k"
  unfolding bind_values_def
  by (induction cvs arbitrary: vs) (auto simp: bound_def split: sum.splits if_splits)

lemma query_issued: "query e s w = (res, w') \<Longrightarrow> issued w' = issued w @ [s]"
  by (auto simp: query_def split: prod.splits)

lemma query_SELECT:
  "query e (SELECT cols t conds) w =
     (case bind_conds e conds of
        Inl err \<Rightarrow> Inl err
      | Inr cs \<Rightarrow> Inr (map (project cols) (filter (matches cs) (table_rows (store w) t))),
      w\<lparr>issued := issued w @ [SELECT cols t conds]\<rparr>)"
  by (simp add: query_def split: sum.splits)

lemma query_SELECT_JOIN:
  "query e (SELECT_TASK_JOIN_CATEGORY conds) w =
     (case bind_conds e conds of
        Inl err \<Rightarrow> Inl err
      | Inr cs \<Rightarrow> Inr (map (joined (store w)) (filter (matches cs) (table_rows (store w) Tasks))),
      w\<lparr>issued := issued w @ [SELECT_TASK_JOIN_CATEGORY conds]\<rparr>)"
  by (simp add: query_def split: sum.splits)

lemma query_SELECT_COUNT:
  "query e (SELECT_COUNT t conds) w =
     (case bind_conds e conds of
        Inl err \<Rightarrow> Inl err
      | Inr cs \<Rightarrow> Inr [[(''count'', Num (int (length (filter (matches cs) (table_rows (store w) t)))))]],
      w\<lparr>issued := issued w @ [SELECT_COUNT t conds]\<rparr>)"
  by (simp add: query_def split: sum.splits)

lemma query_refused:
  assumes "bind_conds e conds = Inl err"
  shows "query e (DELETE t conds ret) w = (Inl err, w\<lparr>issued := issued w @ [DELETE t conds ret]\<rparr>)"
  using assms by (simp add: query_def)

lemma filter_none: "\<forall>r\<in>set rows. \<not> P r \<Longrightarrow> filter P rows = []"
  by (induction rows) auto

lemma filter_all: "\<forall>r\<in>set rows. P r \<Longrightarrow> filter P rows = rows"
  by (induction rows) auto

lemma query_DELETE_none:
  assumes "bind_conds e conds = Inr cs" and "\<forall>r\<in>set (table_rows (store w) t). \<not> matches cs r"
  shows "query e (DELETE t conds ret) w = (Inr [], w\<lparr>issued := issued w @ [DELETE t conds ret]\<rparr>)"
proof -
  have gone: "filter (matches cs) (table_rows (store w) t) = []"
    using assms(2) by (rule filter_none)
  have kept: "filter (\<lambda>r. \<not> matches cs r) (table_rows (store w) t) = table_rows (store w) t"
    using assms(2) by (intro filter_all) simp
  have same: "on_delete t ts [] (store w) = store w" for ts
    by (cases t) (simp_all add: set_null_category_def owned_by_def)
  show ?thesis
    by (simp add: query_def assms(1) gone kept same)
qed

lemma query_DELETE:
  assumes "bind_conds e conds = Inr cs"
  shows "\<exists>gone w'. query e (DELETE t conds ret) w = (Inr gone, w')
     \<and> issued w' = issued w @ [DELETE t conds ret]"
  using assms by (simp add: query_def Let_def)

lemma sent_append: "issued w' = issued w @ xs \<Longrightarrow> sent w w' = xs"
  by (simp add: sent_def)

lemma sent_handler_get:
  "\<forall>s\<in>set (sent w (snd (tasks_get_id e u t w))). where_clause s = own_task t u"
  by (auto simp: tasks_get_id_def tasks_get_id_handler_def finish_def sent_def
      split: list.splits prod.splits sum.splits dest!: query_issued)

lemma sent_handler_delete:
  "\<forall>s\<in>set (sent w (snd (tasks_delete_id e u t w))). where_clause s = own_task t u"
  by (auto simp: tasks_delete_id_def tasks_delete_id_handler_def finish_def sent_def 
      split: list.splits prod.splits sum.splits dest!: query_issued)

lemma sent_handler_put:
  "\<forall>s\<in>set (sent w (snd (tasks_put_id e u t body w))). where_clause s = own_task t u"
  by (auto simp: tasks_put_id_def tasks_put_id_handler_def finish_def sent_def Let_def
      split: list.splits prod.splits sum.splits if_splits dest!: query_issued)

lemmas schema_defs = taskSchemas_update_def taskSchemas_create_def categorySchemas_create_def
  categorySchemas_update_def userSchemas_updateProfile_def querySchemas_pagination_def
  querySchemas_taskFilters_def concat_schema_def
  valid_def allow_def Joi_string_def Joi_number_def Joi_date_iso_def status_values_def
  priority_values_def

lemmas validate_defs = validate_def validateQuery_def schema_validate_def field_errors_def lookup_def
  validate_value_def normalized_def known_def missing_default_def

lemmas demo_defs = demo_world_def demo_db_def task_row_def category_row_def user_row_def demo_env_def

lemmas route_defs = tasks_put_id_def tasks_put_id_handler_def tasks_post_def tasks_post_handler_def
  finish_def json_def query_def updateFields_def completed_at_field_def own_task_def matches_def
  project_def task_columns_def assign_def refers_def stored_task_def

lemma assign_Cons: "assign (cv # cols) r = assign cols (r(fst cv := snd cv))"
  by (simp add: assign_def)

lemma assign_append: "assign (xs @ ys) r = assign ys (assign xs r)"
  by (simp add: assign_def)

lemma assign_other: "c \<notin> set (map fst cols) \<Longrightarrow> assign cols r c = r c"
  by (induction cols arbitrary: r) (simp_all add: assign_def)

lemma assign_distinct:
  "distinct (map fst cols) \<Longrightarrow> assign cols r c = (case map_of cols c of None \<Rightarrow> r c | Some v \<Rightarrow> v)"
proof (induction cols arbitrary: r)
  case Nil
  then show ?case by (simp add: assign_def)
next
  case (Cons cv cols)
  obtain k v where cv: "cv = (k, v)" by (cases cv)
  have d: "distinct (map fst cols)" and k: "k \<notin> set (map fst cols)"
    using Cons.prems cv by simp_all
  have "assign (cv # cols) r c = assign cols (r(k := v)) c"
    unfolding cv by (simp only: assign_Cons fst_conv snd_conv)
  also have "\<dots> = (case map_of cols c of None \<Rightarrow> (r(k := v)) c | Some v' \<Rightarrow> v')"
    by (rule Cons.IH [OF d])
  finally have step: "assign (cv # cols) r c = (case map_of cols c of None \<Rightarrow> (r(k := v)) c | Some v' \<Rightarrow> v')" .
  show ?case
  proof (cases "c = k")
    case True
    then have "map_of cols c = None"
      using k by (simp add: map_of_eq_None_iff)
    then show ?thesis using step True cv by simp
  next
    case False
    then show ?thesis using step cv by (simp split: option.splits)
  qed
qed

lemma find_filter: "find P xs = (case filter P xs of [] \<Rightarrow> None | y # ys \<Rightarrow> Some y)"
  by (induction xs) simp_all

lemma find_map_if:
  assumes "\<And>y. P y \<Longrightarrow> P (f y)"
  shows "find P (map (\<lambda>y. if P y then f y else y) xs) = map_option f (find P xs)"
  using assms by (induction xs) simp_all

lemma errorHandler_thrown_status: "status (errorHandler e (thrown err)) \<in> {400, 409, 500}"
  by (cases err) (simp add: errorHandler_def pg_translation_def json_def Let_def)

lemma exec_UPDATE_ok:
  assumes "exec e (UPDATE t sets conds ret) d = (Inr rs, d')"
  shows "\<exists>vs cs. bind_values e (map (\<lambda>cx. (fst cx, setval_of (db_now e) (snd cx))) sets) = Inr vs
       \<and> bind_conds e conds = Inr cs
       \<and> distinct (map fst sets)
       \<and> table_rows d' = (table_rows d)(t := map (\<lambda>r. if matches cs r
             then before_update t (db_now e) (assign vs r) else r) (table_rows d t))
       \<and> serial d' = serial d
       \<and> rs = map (project ret) (map (\<lambda>r. before_update t (db_now e) (assign vs r))
                 (filter (matches cs) (table_rows d t)))"
  using assms by (auto simp: Let_def split: if_splits list.splits sum.splits)

lemma exec_error:
  assumes "exec e s d = (Inl err, d')"
  shows "table_rows d' = table_rows d"
  using assms by (cases s) (auto simp: Let_def split: if_splits list.splits sum.splits option.splits)

lemma map_of_known:
  "map_of (List.map_filter (known e sch) raw) k =
     (case map_of sch k of
        None \<Rightarrow> None
      | Some s \<Rightarrow> map_option (\<lambda>x. snd (validate_value e s x)) (map_of raw k))"
  by (induction raw) (auto simp: List.map_filter_simps known_def split: option.splits)

lemma map_of_missing_default:
  assumes "distinct (map fst sch)"
  shows "map_of (List.map_filter (missing_default raw) sch) k =
     (case lookup raw k of
        Some x \<Rightarrow> None
      | None \<Rightarrow> (case map_of sch k of None \<Rightarrow> None | Some s \<Rightarrow> dflt s))"
  using assms
proof (induction sch)
  case Nil
  then show ?case by (simp add: List.map_filter_simps split: option.splits)
next
  case (Cons ks sch)
  have d: "distinct (map fst sch)" and fresh: "fst ks \<notin> set (map fst sch)"
    using Cons.prems by simp_all
  have none: "map_of sch (fst ks) = None"
    using fresh by (simp add: map_of_eq_None_iff)
  show ?case
    using Cons.IH [OF d] none
    by (cases ks) (auto simp: List.map_filter_simps missing_default_def split: option.splits)
qed

lemma lookup_normalized:
  assumes "distinct (map fst sch)"
  shows "lookup (normalized e sch raw) k =
     (case map_of sch k of
        None \<Rightarrow> None
      | Some s \<Rightarrow> (case lookup raw k of
                     None \<Rightarrow> dflt s
                   | Some x \<Rightarrow> Some (snd (validate_value e s x))))"
  using map_of_missing_default [OF assms, of raw k] map_of_known [of e sch raw k]
  by (auto simp: lookup_def normalized_def map_add_def split: option.splits)

lemma keys_known: "set (map fst (List.map_filter (known e sch) raw)) \<subseteq> set (map fst sch)"
proof (induction raw)
  case Nil
  then show ?case by (simp add: List.map_filter_simps)
next
  case (Cons kv raw)
  show ?case
  proof (cases "map_of sch (fst kv)")
    case None
    then show ?thesis using Cons by (simp add: List.map_filter_simps known_def)
  next
    case (Some s)
    then have "fst kv \<in> set (map fst sch)"
      by (metis map_of_eq_None_iff option.distinct(1) set_map)
    then show ?thesis using Cons Some by (simp add: List.map_filter_simps known_def)
  qed
qed

lemma keys_missing_default: "set (map fst (List.map_filter (missing_default raw) sch)) \<subseteq> set (map fst sch)"
  by (induction sch) (auto simp: List.map_filter_simps missing_default_def split: option.splits)

lemma keys_normalized: "set (map fst (normalized e sch raw)) \<subseteq> set (map fst sch)"
  using keys_known [of e sch raw] keys_missing_default [of raw sch]
  by (simp add: normalized_def)

lemma schema_validate_Inr:
  assumes "schema_validate e sch raw = Inr v"
  shows "v = normalized e sch raw" and "\<And>ks. ks \<in> set sch \<Longrightarrow> field_errors e raw ks = []"
  using assms by (auto simp: schema_validate_def Let_def split: if_splits)

lemma status_field_valid:
  assumes "field_errors e raw (k, valid vs Joi_string) = []" and "lookup raw k = Some x"
  shows "x \<in> set vs" and "snd (validate_value e (valid vs Joi_string) x) = x"
proof -
  have c: "coerce e JoiString x = x"
    by (cases x) simp_all
  have "fst (validate_value e (valid vs Joi_string) x) = []"
    using assms by (simp add: field_errors_def)
  then show "x \<in> set vs"
    by (auto simp: validate_value_def valid_def Joi_string_def c Let_def split: if_splits option.splits)
  show "snd (validate_value e (valid vs Joi_string) x) = x"
    by (auto simp: validate_value_def valid_def Joi_string_def c Let_def split: if_splits option.splits)
qed

lemma update_schema_distinct: "distinct (map fst taskSchemas_update)"
  by (simp add: taskSchemas_update_def)

lemma update_validated:
  assumes "schema_validate e taskSchemas_update body = Inr v"
  shows "set (map fst v) \<subseteq> {''title'', ''description'', ''status'', ''priority'', ''due_date'', ''category_id''}"
    and "lookup v ''status'' = lookup body ''status''"
    and "\<And>x. lookup body ''status'' = Some x \<Longrightarrow> x \<in> set status_values"
proof -
  have v: "v = normalized e taskSchemas_update body"
    using assms by (rule schema_validate_Inr)
  show "set (map fst v) \<subseteq> {''title'', ''description'', ''status'', ''priority'', ''due_date'', ''category_id''}"
    using keys_normalized [of e taskSchemas_update body] unfolding v
    by (simp add: taskSchemas_update_def)
  have fe: "field_errors e body (''status'', valid status_values Joi_string) = []"
    using assms by (rule schema_validate_Inr) (simp add: taskSchemas_update_def)
  show valid: "x \<in> set status_values" if "lookup body ''status'' = Some x" for x
    using fe that by (rule status_field_valid)
  have m: "map_of taskSchemas_update ''status'' = Some (valid status_values Joi_string)"
    by (simp add: taskSchemas_update_def)
  show "lookup v ''status'' = lookup body ''status''"
  proof (cases "lookup body ''status''")
    case None
    then show ?thesis
      unfolding v lookup_normalized [OF update_schema_distinct] m
      by (simp add: valid_def Joi_string_def)
  next
    case (Some x)
    then show ?thesis
      unfolding v lookup_normalized [OF update_schema_distinct] m
      using status_field_valid(2) [OF fe Some] by simp
  qed
qed

lemma validate_Inr: "validate e sch body = Inr v \<longleftrightarrow> schema_validate e sch body = Inr v"
  by (simp add: validate_def split: sum.splits)

lemma validate_Inl_status: "validate e sch body = Inl r \<Longrightarrow> status r = 400 \<and> data r = None"
  by (auto simp: validate_def json_def split: sum.splits)

lemma finish_Next_status: "finish e (Next (thrown err), w) = (r, w') \<Longrightarrow> status r \<noteq> 200 \<and> status r \<noteq> 201"
  using errorHandler_thrown_status [of e err] by (auto simp: finish_def)

lemma snd_validate_value: "snd (validate_value e s x) = coerce e (jtype s) x"
  by (simp add: validate_value_def Let_def split: option.splits)

lemma query_UPDATE_ok:
  assumes "query e (UPDATE t sets conds ret) w = (Inr rs, w')"
  obtains vs cs where
    "bind_values e (map (\<lambda>cx. (fst cx, setval_of (db_now e) (snd cx))) sets) = Inr vs"
    and "bind_conds e conds = Inr cs"
    and "distinct (map fst sets)"
    and "table_rows (store w') = (table_rows (store w))(t := map (\<lambda>r. if matches cs r
             then before_update t (db_now e) (assign vs r) else r) (table_rows (store w) t))"
    and "rs = map (project ret) (map (\<lambda>r. before_update t (db_now e) (assign vs r))
                 (filter (matches cs) (table_rows (store w) t)))"
    and "issued w' = issued w @ [UPDATE t sets conds ret]"
proof -
  obtain d' where ex: "exec e (UPDATE t sets conds ret) (store w) = (Inr rs, d')"
    and w': "w' = \<lparr>store = d', issued = issued w @ [UPDATE t sets conds ret]\<rparr>"
    using assms by (auto simp: query_def split: prod.splits)
  obtain vs cs where bv: "bind_values e (map (\<lambda>cx. (fst cx, setval_of (db_now e) (snd cx))) sets) = Inr vs"
    and bc: "bind_conds e conds = Inr cs"
    and dist: "distinct (map fst sets)"
    and tab: "table_rows d' = (table_rows (store w))(t := map (\<lambda>r. if matches cs r
             then before_update t (db_now e) (assign vs r) else r) (table_rows (store w) t))"
    and rs: "rs = map (project ret) (map (\<lambda>r. before_update t (db_now e) (assign vs r))
                 (filter (matches cs) (table_rows (store w) t)))"
    using exec_UPDATE_ok [OF ex] by blast
  show ?thesis
  proof (rule that [OF bv bc dist _ rs])
    show "table_rows (store w') = (table_rows (store w))(t := map (\<lambda>r. if matches cs r
             then before_update t (db_now e) (assign vs r) else r) (table_rows (store w) t))"
      using tab w' by simp
    show "issued w' = issued w @ [UPDATE t sets conds ret]"
      using w' by simp
  qed
qed

lemma tasks_put_id_success:
  assumes run: "tasks_put_id e u t body w = (r, w')" and ok: "status r = 200"
  obtains v x vs where
    "schema_validate e taskSchemas_update body = Inr v"
    and "stored_task (store w) u t = Some x"
    and "int4 t" and "int4 u"
    and "distinct (map fst (updateFields v @ completed_at_field e v (project [''id'', ''status''] x)
                              @ [(''updated_at'', CURRENT_TIMESTAMP)]))"
    and "bind_values e (map (\<lambda>cx. (fst cx, setval_of (db_now e) (snd cx)))
           (updateFields v @ completed_at_field e v (project [''id'', ''status''] x)
              @ [(''updated_at'', CURRENT_TIMESTAMP)])) = Inr vs"
    and "issued w' = issued w @
           [SELECT [''id'', ''status''] Tasks (own_task t u),
            UPDATE Tasks (updateFields v @ completed_at_field e v (project [''id'', ''status''] x)
                            @ [(''updated_at'', CURRENT_TIMESTAMP)]) (own_task t u) task_columns]"
    and "table_rows (store w') = (table_rows (store w))
           (Tasks := map (\<lambda>y. if matches (own_task t u) y
                 then before_update Tasks (db_now e) (assign vs y)
                 else y) (table_rows (store w) Tasks))"
    and "data r = first_row (map (project task_columns)
            (map (\<lambda>y. before_update Tasks (db_now e) (assign vs y))
                 (filter (matches (own_task t u)) (table_rows (store w) Tasks))))"
proof -
  obtain v where v: "validate e taskSchemas_update body = Inr v"
    using run ok validate_Inl_status [of e taskSchemas_update body]
    by (cases "validate e taskSchemas_update body") (auto simp: tasks_put_id_def)
  have h: "finish e (tasks_put_id_handler e u t v w) = (r, w')"
    using run v by (simp add: tasks_put_id_def)
  have rng: "int4 t \<and> int4 u"
  proof (rule ccontr)
    assume "\<not> (int4 t \<and> int4 u)"
    then have "bind_conds e (own_task t u) = Inl out_of_range"
      unfolding bind_own_task by (rule if_not_P)
    then have "tasks_put_id_handler e u t v w =
        (Next (thrown out_of_range), w\<lparr>issued := issued w @ [SELECT [''id'', ''status''] Tasks (own_task t u)]\<rparr>)"
      by (simp add: tasks_put_id_handler_def query_SELECT)
    then show False
      using h ok finish_Next_status [of e out_of_range _ r w'] by simp
  qed
  have bc: "bind_conds e (own_task t u) = Inr (own_task t u)"
    using rng by (simp add: bind_own_task)
  define w1 where "w1 = w\<lparr>issued := issued w @ [SELECT [''id'', ''status''] Tasks (own_task t u)]\<rparr>"
  obtain x xs where f: "filter (matches (own_task t u)) (table_rows (store w) Tasks) = x # xs"
    using h ok
    by (cases "filter (matches (own_task t u)) (table_rows (store w) Tasks)")
       (auto simp: tasks_put_id_handler_def query_SELECT bc finish_def json_def)
  define sets where "sets = updateFields v @ completed_at_field e v (project [''id'', ''status''] x)
                              @ [(''updated_at'', CURRENT_TIMESTAMP)]"
  have nonempty: "updateFields v @ completed_at_field e v (project [''id'', ''status''] x) \<noteq> []"
    using h ok f
    by (auto simp: tasks_put_id_handler_def query_SELECT bc finish_def json_def Let_def split: if_splits)
  have h2: "finish e (case query e (UPDATE Tasks sets (own_task t u) task_columns) w1 of
                    (Inl err, w2) \<Rightarrow> (Next (thrown err), w2)
                  | (Inr rs, w2) \<Rightarrow>
                     (Respond (json 200 True (Some ''Task updated successfully'') (first_row rs)), w2)) = (r, w')"
    using h f nonempty
    by (auto simp: tasks_put_id_handler_def query_SELECT bc Let_def sets_def w1_def split: if_splits)
  obtain res w2 where q: "query e (UPDATE Tasks sets (own_task t u) task_columns) w1 = (res, w2)"
    by (cases "query e (UPDATE Tasks sets (own_task t u) task_columns) w1")
  obtain rs where res: "res = Inr rs"
    using h2 q ok finish_Next_status [of e _ w2 r w']
    by (cases res) auto
  have r: "r = json 200 True (Some ''Task updated successfully'') (first_row rs)" and w': "w' = w2"
    using h2 q res by (simp_all add: finish_def)
  obtain vs cs where bv: "bind_values e (map (\<lambda>cx. (fst cx, setval_of (db_now e) (snd cx))) sets) = Inr vs"
    and bcs: "bind_conds e (own_task t u) = Inr cs"
    and dist: "distinct (map fst sets)"
    and tab: "table_rows (store w2) = (table_rows (store w1))(Tasks := map (\<lambda>r. if matches cs r
             then before_update Tasks (db_now e) (assign vs r) else r) (table_rows (store w1) Tasks))"
    and rows: "rs = map (project task_columns) (map (\<lambda>r. before_update Tasks (db_now e) (assign vs r))
                 (filter (matches cs) (table_rows (store w1) Tasks)))"
    and iss: "issued w2 = issued w1 @ [UPDATE Tasks sets (own_task t u) task_columns]"
    using query_UPDATE_ok [OF q [unfolded res]] by blast
  have cs: "cs = own_task t u"
    using bc bcs by simp
  have st: "stored_task (store w) u t = Some x"
    using f by (simp add: stored_task_def find_filter matches_own_task [symmetric, abs_def])
  show ?thesis
  proof (rule that [of v x vs])
    show "schema_validate e taskSchemas_update body = Inr v"
      using v by (simp add: validate_Inr)
    show "stored_task (store w) u t = Some x" by (rule st)
    show "int4 t" and "int4 u" using rng by simp_all
    show "distinct (map fst (updateFields v @ completed_at_field e v (project [''id'', ''status''] x)
                              @ [(''updated_at'', CURRENT_TIMESTAMP)]))"
      using dist unfolding sets_def .
    show "bind_values e (map (\<lambda>cx. (fst cx, setval_of (db_now e) (snd cx)))
           (updateFields v @ completed_at_field e v (project [''id'', ''status''] x)
              @ [(''updated_at'', CURRENT_TIMESTAMP)])) = Inr vs"
      using bv unfolding sets_def .
    show "issued w' = issued w @
           [SELECT [''id'', ''status''] Tasks (own_task t u),
            UPDATE Tasks (updateFields v @ completed_at_field e v (project [''id'', ''status''] x)
                            @ [(''updated_at'', CURRENT_TIMESTAMP)]) (own_task t u) task_columns]"
      using iss by (simp add: w' w1_def sets_def)
    show "table_rows (store w') = (table_rows (store w))
           (Tasks := map (\<lambda>y. if matches (own_task t u) y
                 then before_update Tasks (db_now e) (assign vs y)
                 else y) (table_rows (store w) Tasks))"
      using tab by (simp add: w' w1_def cs)
    show "data r = first_row (map (project task_columns)
            (map (\<lambda>y. before_update Tasks (db_now e) (assign vs y))
                 (filter (matches (own_task t u)) (table_rows (store w) Tasks))))"
      using rows by (simp add: r json_def w1_def cs)
  qed
qed

lemma map_of_setvals:
  "map_of (map (\<lambda>cx. (fst cx, setval_of ts (snd cx))) xs) k = map_option (setval_of ts) (map_of xs k)"
  by (induction xs) simp_all

lemma map_of_updateFields: "map_of (updateFields v) k = map_option Param (lookup v k)"
  unfolding updateFields_def lookup_def by (induction v) simp_all

lemma keys_updateFields: "map fst (updateFields v) = map fst v"
  by (simp add: updateFields_def)

lemma keys_completed_at_field:
  "set (map fst (completed_at_field e v ex)) \<subseteq> {''completed_at''}"
proof -
  have "completed_at_field e v ex \<in> {[(''completed_at'', Param (Date (js_now e)))], [(''completed_at'', Param Null)], []}"
    unfolding completed_at_field_def by (simp only: if_split insert_iff simp_thms split: if_split)
  then show ?thesis
    by (elim insertE) simp_all
qed

lemma completed_at_field_None:
  "lookup v ''status'' = None \<Longrightarrow> completed_at_field e v ex = []"
  by (simp add: completed_at_field_def)

lemma completed_at_field_Some:
  assumes "lookup v ''status'' = Some s" and "truthy (Some s)"
  shows "completed_at_field e v ex =
     (if s = Str ''completed''
      then (if lookup ex ''status'' = Some (Str ''completed'') then []
            else [(''completed_at'', Param (Date (js_now e)))])
      else [(''completed_at'', Param Null)])"
  using assms by (simp add: completed_at_field_def)

lemma tasks_put_id_effect:
  assumes run: "tasks_put_id e u t body w = (r, w')" and ok: "status r = 200"
  shows "\<exists>x x'. stored_task (store w) u t = Some x
       \<and> stored_task (store w') u t = Some x'
       \<and> x' ''completed_at'' =
           (case lookup body ''status'' of
              None \<Rightarrow> x ''completed_at''
            | Some s \<Rightarrow> if s = Str ''completed''
                        then (if x ''status'' = Str ''completed'' then x ''completed_at'' else Date (js_now e))
                        else Null)
       \<and> x' ''status'' = (case lookup body ''status'' of None \<Rightarrow> x ''status'' | Some s \<Rightarrow> s)
       \<and> x' ''updated_at'' = Date (db_now e)
       \<and> x' ''id'' = x ''id'' \<and> x' ''user_id'' = x ''user_id''
       \<and> (\<forall>s. lookup body ''status'' = Some s \<longrightarrow> s \<in> set status_values)"
proof -
  obtain v x cols where v: "schema_validate e taskSchemas_update body = Inr v"
    and x: "stored_task (store w) u t = Some x"
    and dist: "distinct (map fst (updateFields v @ completed_at_field e v (project [''id'', ''status''] x)
                              @ [(''updated_at'', CURRENT_TIMESTAMP)]))"
    and bv: "bind_values e (map (\<lambda>cx. (fst cx, setval_of (db_now e) (snd cx)))
           (updateFields v @ completed_at_field e v (project [''id'', ''status''] x)
              @ [(''updated_at'', CURRENT_TIMESTAMP)])) = Inr cols"
    and tab: "table_rows (store w') = (table_rows (store w))
           (Tasks := map (\<lambda>y. if matches (own_task t u) y
                 then before_update Tasks (db_now e) (assign cols y)
                 else y) (table_rows (store w) Tasks))"
    using run ok by (rule tasks_put_id_success)
  define derived where "derived = completed_at_field e v (project [''id'', ''status''] x)"
  define sets where "sets = updateFields v @ derived @ [(''updated_at'', CURRENT_TIMESTAMP)]"
  define sent_cols where "sent_cols = map (\<lambda>cx. (fst cx, setval_of (db_now e) (snd cx))) sets"
  define wr where "wr = (\<lambda>y. before_update Tasks (db_now e) (assign cols y))"
  have bv': "bind_values e sent_cols = Inr cols"
    using bv by (simp add: sent_cols_def sets_def derived_def)
  note val = update_validated [OF v]
  have k0: "map fst cols = map fst sent_cols"
    using bv' by (rule bind_values_keys)
  have k1: "map fst cols = map fst v @ map fst derived @ [''updated_at'']"
    unfolding k0 by (simp add: sent_cols_def sets_def keys_updateFields comp_def)
  have k2: "set (map fst derived) \<subseteq> {''completed_at''}"
    unfolding derived_def by (rule keys_completed_at_field)
  define six where "six = {''title'', ''description'', ''status'', ''priority'', ''due_date'', ''category_id''}"
  have vsix: "set (map fst v) \<subseteq> six"
    using val(1) unfolding six_def .
  have keys: "set (map fst cols) \<subseteq> six \<union> {''completed_at'', ''updated_at''}"
    unfolding k1 using k2 vsix by auto
  have not_key: "c \<notin> set (map fst cols)"
    if "c \<notin> six" and "c \<noteq> ''completed_at''" and "c \<noteq> ''updated_at''" for c
    using that keys by blast
  have dcols: "distinct (map fst cols)"
    unfolding k0 using dist by (simp add: sent_cols_def sets_def derived_def comp_def)
  have keep: "wr y c = y c" if "c \<notin> set (map fst cols)" and "c \<noteq> ''updated_at''" for y c
    using that by (simp add: wr_def assign_other)
  have id: "wr y ''id'' = y ''id''" for y
    by (rule keep [OF not_key]) (simp_all add: six_def)
  have user: "wr y ''user_id'' = y ''user_id''" for y
    by (rule keep [OF not_key]) (simp_all add: six_def)
  have pres: "matches (own_task t u) (wr y)" if "matches (own_task t u) y" for y
    using that by (simp add: matches_own_task id user)
  have tab': "table_rows (store w') Tasks =
                map (\<lambda>y. if matches (own_task t u) y then wr y else y) (table_rows (store w) Tasks)"
    unfolding tab by (simp add: wr_def)
  have x': "stored_task (store w') u t = Some (wr x)"
    using x find_map_if [of "matches (own_task t u)" wr "table_rows (store w) Tasks", OF pres]
    by (simp add: stored_task_def tab' matches_own_task [abs_def])
  have plain: "map_of cols c = map_of sent_cols c" if "c = ''completed_at'' \<or> c = ''status''" for c
    using that by (intro bind_values_plain [OF bv']) (auto simp: integer_column_def)
  have col: "wr x c = (case map_of sent_cols c of None \<Rightarrow> x c | Some val \<Rightarrow> val)"
    if "c = ''completed_at'' \<or> c = ''status''" for c
    using that assign_distinct [OF dcols, of x c] plain [OF that] by (auto simp: wr_def)
  have "''completed_at'' \<notin> six"
    by (simp add: six_def)
  then have "''completed_at'' \<notin> set (map fst (updateFields v))"
    using vsix unfolding keys_updateFields by blast
  then have no_derived: "map_of (updateFields v) ''completed_at'' = None"
    by (simp add: map_of_eq_None_iff)
  have ex_status: "lookup (project [''id'', ''status''] x) ''status'' = Some (x ''status'')"
    by (simp add: lookup_def project_def)
  have truthy_status: "truthy (Some s)" if "s \<in> set status_values" for s
    using that by (auto simp: status_values_def)
  have completed: "wr x ''completed_at'' =
           (case lookup body ''status'' of
              None \<Rightarrow> x ''completed_at''
            | Some s \<Rightarrow> if s = Str ''completed''
                        then (if x ''status'' = Str ''completed'' then x ''completed_at'' else Date (js_now e))
                        else Null)"
  proof (cases "lookup body ''status''")
    case None
    then have "derived = []"
      using val(2) unfolding derived_def by (intro completed_at_field_None) simp
    then have "map_of sent_cols ''completed_at'' = None"
      using no_derived by (simp add: sent_cols_def sets_def map_of_setvals map_add_def)
    then show ?thesis using None col [of "''completed_at''"] by simp
  next
    case (Some s)
    have tr: "truthy (Some s)"
      using val(3) [OF Some] by (rule truthy_status)
    have vs: "lookup v ''status'' = Some s"
      using val(2) Some by simp
    have derived_eq: "derived =
        (if s = Str ''completed'' \<and> x ''status'' \<noteq> Str ''completed''
         then [(''completed_at'', Param (Date (js_now e)))]
         else if s \<noteq> Str ''completed'' then [(''completed_at'', Param Null)] else [])"
      unfolding derived_def completed_at_field_Some [OF vs tr] ex_status by simp
    have "map_of sent_cols ''completed_at'' = map_option (setval_of (db_now e)) (map_of derived ''completed_at'')"
      using no_derived by (simp add: sent_cols_def sets_def map_of_setvals map_add_def split: option.splits)
    then have "map_of sent_cols ''completed_at'' =
        (if s = Str ''completed'' \<and> x ''status'' \<noteq> Str ''completed'' then Some (Date (js_now e))
         else if s \<noteq> Str ''completed'' then Some Null else None)"
      unfolding derived_eq by simp
    then have "wr x ''completed_at'' =
        (if s = Str ''completed'' \<and> x ''status'' \<noteq> Str ''completed'' then Date (js_now e)
         else if s \<noteq> Str ''completed'' then Null else x ''completed_at'')"
      using col [of "''completed_at''"] by simp
    then show ?thesis
      unfolding Some by simp
  qed
  have "''status'' \<notin> set (map fst derived)"
    using k2 by auto
  then have "map_of derived ''status'' = None"
    by (simp add: map_of_eq_None_iff)
  then have "map_of sent_cols ''status'' = map_option (setval_of (db_now e)) (map_of (updateFields v) ''status'')"
    by (simp add: sent_cols_def sets_def map_of_setvals map_add_def split: option.splits)
  then have status: "wr x ''status'' = (case lookup body ''status'' of None \<Rightarrow> x ''status'' | Some s \<Rightarrow> s)"
    using col [of "''status''"] val(2) by (simp add: map_of_updateFields split: option.splits)
  have updated: "wr x ''updated_at'' = Date (db_now e)"
    by (simp add: wr_def)
  show ?thesis
    using x x' completed status updated id [of x] user [of x] val(3)
    by (intro exI [of _ x] exI [of _ "wr x"] conjI allI impI) assumption+
qed

section \<open>The types of the columns are kept\<close>

lemma typed_table: "typed d \<Longrightarrow> list_all typed_row (table_rows d t)"
  by (cases t) (simp_all add: typed_def)

lemma integer_in_cell: "integer_in e v = Inr x \<Longrightarrow> integer_cell x"
  by (cases v) (auto simp: integer_cell_def split: if_splits option.splits)

lemma bound_cell: "bound e c v = Inr x \<Longrightarrow> integer_column c \<Longrightarrow> integer_cell x"
  by (auto simp: bound_def integer_in_cell split: if_splits)

lemma assign_cell:
  "bind_values e cvs = Inr vs \<Longrightarrow> integer_column c \<Longrightarrow> integer_cell (r c) \<Longrightarrow> integer_cell (assign vs r c)"
  unfolding bind_values_def
proof (induction cvs arbitrary: vs r)
  case Nil
  then show ?case by (simp add: assign_def)
next
  case (Cons cv cvs)
  obtain x xs where x: "bound e (fst cv) (snd cv) = Inr x"
    and xs: "collect (\<lambda>cv. case bound e (fst cv) (snd cv) of Inl err \<Rightarrow> Inl err | Inr v \<Rightarrow> Inr (fst cv, v)) cvs = Inr xs"
    and vs: "vs = (fst cv, x) # xs"
    using Cons.prems(1) by (auto split: sum.splits)
  have "integer_cell ((r(fst cv := x)) c)"
    using Cons.prems(2,3) bound_cell [OF x] by auto
  then have "integer_cell (assign xs (r(fst cv := x)) c)"
    by (rule Cons.IH [OF xs Cons.prems(2)])
  then show ?case
    unfolding vs by (simp add: assign_Cons)
qed

lemma assign_typed: "bind_values e cvs = Inr vs \<Longrightarrow> typed_row r \<Longrightarrow> typed_row (assign vs r)"
  unfolding typed_row_def by (auto intro: assign_cell simp: integer_column_def)

lemma defaults_typed: "int4 i \<Longrightarrow> typed_row (defaults t i ts)"
  by (cases t) (simp_all add: typed_row_def integer_cell_def)

lemma before_update_typed: "typed_row r \<Longrightarrow> typed_row (before_update t ts r)"
  by (cases t) (simp_all add: typed_row_def)

lemma set_null_typed: "list_all typed_row rs \<Longrightarrow> list_all typed_row (set_null_category ts ids rs)"
  by (auto simp: set_null_category_def list_all_iff typed_row_def integer_cell_def)

lemma filter_typed: "list_all typed_row rs \<Longrightarrow> list_all typed_row (filter P rs)"
  by (simp add: list_all_iff)

lemma on_delete_typed: "typed d \<Longrightarrow> typed (on_delete t ts ids d)"
  by (cases t) (simp_all add: typed_def Let_def set_null_typed filter_typed)

lemma exec_typed:
  assumes "typed d"
  shows "typed (snd (exec e s d))"
proof (cases s)
  case (INSERT t cols ret)
  show ?thesis
  proof (cases "bind_values e cols")
    case (Inl err)
    then show ?thesis using assms INSERT by simp
  next
    case (Inr vs)
    have r: "typed_row (assign vs (defaults t (serial d t) (db_now e)))" if "int4 (serial d t)"
      using Inr that by (intro assign_typed defaults_typed)
    have old: "list_all typed_row (table_rows d t)"
      using assms by (rule typed_table)
    show ?thesis
      using assms INSERT Inr r old
      by (cases t) (auto simp: typed_def Let_def split: option.splits)
  qed
next
  case (UPDATE t sets conds ret)
  show ?thesis
  proof (cases "exec e s d")
    case (Pair res d')
    show ?thesis
    proof (cases res)
      case (Inl err)
      then have "table_rows d' = table_rows d"
        using Pair exec_error by blast
      then show ?thesis using assms Pair by (simp add: typed_def)
    next
      case (Inr rs)
      obtain vs cs where bv: "bind_values e (map (\<lambda>cx. (fst cx, setval_of (db_now e) (snd cx))) sets) = Inr vs"
        and tab: "table_rows d' = (table_rows d)(t := map (\<lambda>r. if matches cs r
             then before_update t (db_now e) (assign vs r) else r) (table_rows d t))"
        using exec_UPDATE_ok [OF Pair [unfolded UPDATE Inr]] by blast
      have old: "list_all typed_row (table_rows d t)"
        using assms by (rule typed_table)
      have new: "list_all typed_row (map (\<lambda>r. if matches cs r
             then before_update t (db_now e) (assign vs r) else r) (table_rows d t))"
        using old by (auto simp: list_all_iff intro!: before_update_typed assign_typed [OF bv])
      show ?thesis
        using assms new Pair unfolding tab typed_def
        by (cases t) (simp_all add: typed_def tab)
    qed
  qed
next
  case (DELETE t conds ret)
  show ?thesis
  proof (cases "bind_conds e conds")
    case (Inl err)
    then show ?thesis using assms DELETE by simp
  next
    case (Inr cs)
    have "typed (d\<lparr>table_rows := (table_rows d)(t := filter (\<lambda>r. \<not> matches cs r) (table_rows d t))\<rparr>)"
      using assms by (cases t) (simp_all add: typed_def filter_typed)
    then show ?thesis
      using DELETE Inr by (simp add: Let_def on_delete_typed)
  qed
next
  case (SELECT cols t conds)
  then show ?thesis using assms by (auto split: sum.splits)
next
  case (SELECT_TASK_JOIN_CATEGORY conds)
  then show ?thesis using assms by (auto split: sum.splits)
next
  case (SELECT_COUNT t conds)
  then show ?thesis using assms by (auto split: sum.splits)
qed

lemma demo_typed: "typed demo_db"
  by (simp add: typed_def typed_row_def integer_cell_def int4_def demo_db_def user_row_def category_row_def task_row_def)

lemma stored_category_typed:
  assumes "typed d"
  shows "stored_category d c = find (\<lambda>r. r ''id'' = Num c) (table_rows d Categories)"
proof (cases "find (\<lambda>r. r ''id'' = Num c) (table_rows d Categories)")
  case None
  then show ?thesis by (simp add: stored_category_def)
next
  case (Some x)
  then have "x \<in> set (table_rows d Categories)"
    by (auto simp: find_Some_iff)
  then have "typed_row x"
    using assms by (simp add: typed_def list_all_iff)
  then show ?thesis
    using Some by (simp add: stored_category_def typed_row_def)
qed

section \<open>Tasks of other users and tasks that do not exist\<close>

lemma errorHandler_out_of_range:
  "errorHandler e (thrown out_of_range) =
     (json 500 False
        (Some (if NODE_ENV e = ''production'' then ''Internal Server Error'' else ''Database error occurred''))
        None)
       \<lparr>stack := (if NODE_ENV e = ''development'' then Some ''value is out of range for type integer''
                  else None)\<rparr>"
  by (simp add: errorHandler_def out_of_range_def pg_translation_def json_def Let_def)

text \<open>
  Claim C1, as amended. Let the task id and the caller's id be within the INTEGER type of
  the columns. When the store has no task with the given id that the caller owns (the id
  is unknown, or its task belongs to someone else), fetching and deleting answer 404
  ``Task not found'' without data and leave the store as it was; updating answers the same
  404 when the body passes validation, and the 400 of the validation middleware, which
  runs before the handler, when it does not. When an id is outside the type, the storage
  engine refuses the statement and the three routes answer what the error handler makes
  of that, status 500 without data (an update whose body fails validation still answers
  400). No branch answers 403. Whatever the store holds, every statement that the three
  routes send is filtered by equality on the task id and on the caller's user id.
\<close>

theorem foreign_task_not_found:
  "(int4 taskId \<and> int4 userId \<and> stored_task (store w) userId taskId = None \<longrightarrow>
      tasks_get_id e userId taskId w =
        (json 404 False (Some ''Task not found'') None,
         w\<lparr>issued := issued w @ [SELECT_TASK_JOIN_CATEGORY [Eq ''id'' (Num taskId), Eq ''user_id'' (Num userId)]]\<rparr>)
    \<and> tasks_delete_id e userId taskId w =
        (json 404 False (Some ''Task not found'') None,
         w\<lparr>issued := issued w @ [DELETE Tasks [Eq ''id'' (Num taskId), Eq ''user_id'' (Num userId)] [''id'']]\<rparr>)
    \<and> tasks_put_id e userId taskId body w =
        (case schema_validate e taskSchemas_update body of
           Inl errs \<Rightarrow> ((json 400 False (Some ''Validation error'') None)\<lparr>errors := Some errs\<rparr>, w)
         | Inr v \<Rightarrow>
             (json 404 False (Some ''Task not found'') None,
              w\<lparr>issued := issued w @ [SELECT [''id'', ''status''] Tasks
                                         [Eq ''id'' (Num taskId), Eq ''user_id'' (Num userId)]]\<rparr>)))
 \<and> (\<not> (int4 taskId \<and> int4 userId) \<longrightarrow>
      tasks_get_id e userId taskId w =
        (errorHandler e (thrown out_of_range),
         w\<lparr>issued := issued w @ [SELECT_TASK_JOIN_CATEGORY [Eq ''id'' (Num taskId), Eq ''user_id'' (Num userId)]]\<rparr>)
    \<and> tasks_delete_id e userId taskId w =
        (errorHandler e (thrown out_of_range),
         w\<lparr>issued := issued w @ [DELETE Tasks [Eq ''id'' (Num taskId), Eq ''user_id'' (Num userId)] [''id'']]\<rparr>)
    \<and> tasks_put_id e userId taskId body w =
        (case schema_validate e taskSchemas_update body of
           Inl errs \<Rightarrow> ((json 400 False (Some ''Validation error'') None)\<lparr>errors := Some errs\<rparr>, w)
         | Inr v \<Rightarrow>
             (errorHandler e (thrown out_of_range),
              w\<lparr>issued := issued w @ [SELECT [''id'', ''status''] Tasks
                                         [Eq ''id'' (Num taskId), Eq ''user_id'' (Num userId)]]\<rparr>))
    \<and> status (errorHandler e (thrown out_of_range)) = 500
    \<and> success (errorHandler e (thrown out_of_range)) = False
    \<and> data (errorHandler e (thrown out_of_range)) = None)
 \<and> (\<forall>s\<in>set (sent wa (snd (tasks_get_id e userId taskId wa)))
          \<union> set (sent wa (snd (tasks_put_id e userId taskId body wa)))
          \<union> set (sent wa (snd (tasks_delete_id e userId taskId wa))).
        where_clause s = [Eq ''id'' (Num taskId), Eq ''user_id'' (Num userId)])"
proof (intro conjI impI)
  assume a: "int4 taskId \<and> int4 userId \<and> stored_task (store w) userId taskId = None"
  have bc: "bind_conds e (own_task taskId userId) = Inr (own_task taskId userId)"
    using a by (simp add: bind_own_task)
  have none: "\<forall>r\<in>set (table_rows (store w) Tasks). \<not> matches (own_task taskId userId) r"
    using a by (simp add: stored_task_def find_None_iff matches_own_task)
  have empty: "filter (matches (own_task taskId userId)) (table_rows (store w) Tasks) = []"
    using none by (rule filter_none)
  have get: "tasks_get_id e userId taskId w =
           (json 404 False (Some ''Task not found'') None,
            w\<lparr>issued := issued w @ [SELECT_TASK_JOIN_CATEGORY (own_task taskId userId)]\<rparr>)"
    by (simp add: tasks_get_id_def tasks_get_id_handler_def finish_def query_SELECT_JOIN bc empty)
  have del: "tasks_delete_id e userId taskId w =
           (json 404 False (Some ''Task not found'') None,
            w\<lparr>issued := issued w @ [DELETE Tasks (own_task taskId userId) [''id'']]\<rparr>)"
    by (simp add: tasks_delete_id_def tasks_delete_id_handler_def finish_def query_DELETE_none [OF bc none])
  have put: "tasks_put_id e userId taskId body w =
           (case schema_validate e taskSchemas_update body of
              Inl errs \<Rightarrow> ((json 400 False (Some ''Validation error'') None)\<lparr>errors := Some errs\<rparr>, w)
            | Inr v \<Rightarrow>
                (json 404 False (Some ''Task not found'') None,
                 w\<lparr>issued := issued w @ [SELECT [''id'', ''status''] Tasks (own_task taskId userId)]\<rparr>))"
    by (simp add: tasks_put_id_def tasks_put_id_handler_def finish_def validate_def query_SELECT bc empty
          split: sum.splits)
  show "tasks_get_id e userId taskId w =
        (json 404 False (Some ''Task not found'') None,
         w\<lparr>issued := issued w @ [SELECT_TASK_JOIN_CATEGORY [Eq ''id'' (Num taskId), Eq ''user_id'' (Num userId)]]\<rparr>)"
    using get unfolding own_task_def .
  show "tasks_delete_id e userId taskId w =
        (json 404 False (Some ''Task not found'') None,
         w\<lparr>issued := issued w @ [DELETE Tasks [Eq ''id'' (Num taskId), Eq ''user_id'' (Num userId)] [''id'']]\<rparr>)"
    using del unfolding own_task_def .
  show "tasks_put_id e userId taskId body w =
        (case schema_validate e taskSchemas_update body of
           Inl errs \<Rightarrow> ((json 400 False (Some ''Validation error'') None)\<lparr>errors := Some errs\<rparr>, w)
         | Inr v \<Rightarrow>
             (json 404 False (Some ''Task not found'') None,
              w\<lparr>issued := issued w @ [SELECT [''id'', ''status''] Tasks
                                         [Eq ''id'' (Num taskId), Eq ''user_id'' (Num userId)]]\<rparr>))"
    using put unfolding own_task_def .
next
  assume a: "\<not> (int4 taskId \<and> int4 userId)"
  have bc: "bind_conds e (own_task taskId userId) = Inl out_of_range"
    unfolding bind_own_task using a by (rule if_not_P)
  have get: "tasks_get_id e userId taskId w =
           (errorHandler e (thrown out_of_range),
            w\<lparr>issued := issued w @ [SELECT_TASK_JOIN_CATEGORY (own_task taskId userId)]\<rparr>)"
    by (simp add: tasks_get_id_def tasks_get_id_handler_def finish_def query_SELECT_JOIN bc)
  have del: "tasks_delete_id e userId taskId w =
           (errorHandler e (thrown out_of_range),
            w\<lparr>issued := issued w @ [DELETE Tasks (own_task taskId userId) [''id'']]\<rparr>)"
    by (simp add: tasks_delete_id_def tasks_delete_id_handler_def finish_def query_refused [OF bc])
  have put: "tasks_put_id e userId taskId body w =
           (case schema_validate e taskSchemas_update body of
              Inl errs \<Rightarrow> ((json 400 False (Some ''Validation error'') None)\<lparr>errors := Some errs\<rparr>, w)
            | Inr v \<Rightarrow>
                (errorHandler e (thrown out_of_range),
                 w\<lparr>issued := issued w @ [SELECT [''id'', ''status''] Tasks (own_task taskId userId)]\<rparr>))"
    by (simp add: tasks_put_id_def tasks_put_id_handler_def finish_def validate_def query_SELECT bc
          split: sum.splits)
  show "tasks_get_id e userId taskId w =
        (errorHandler e (thrown out_of_range),
         w\<lparr>issued := issued w @ [SELECT_TASK_JOIN_CATEGORY [Eq ''id'' (Num taskId), Eq ''user_id'' (Num userId)]]\<rparr>)"
    using get unfolding own_task_def .
  show "tasks_delete_id e userId taskId w =
        (errorHandler e (thrown out_of_range),
         w\<lparr>issued := issued w @ [DELETE Tasks [Eq ''id'' (Num taskId), Eq ''user_id'' (Num userId)] [''id'']]\<rparr>)"
    using del unfolding own_task_def .
  show "tasks_put_id e userId taskId body w =
        (case schema_validate e taskSchemas_update body of
           Inl errs \<Rightarrow> ((json 400 False (Some ''Validation error'') None)\<lparr>errors := Some errs\<rparr>, w)
         | Inr v \<Rightarrow>
             (errorHandler e (thrown out_of_range),
              w\<lparr>issued := issued w @ [SELECT [''id'', ''status''] Tasks
                                         [Eq ''id'' (Num taskId), Eq ''user_id'' (Num userId)]]\<rparr>))"
    using put unfolding own_task_def .
  show "status (errorHandler e (thrown out_of_range)) = 500"
    and "success (errorHandler e (thrown out_of_range)) = False"
    and "data (errorHandler e (thrown out_of_range)) = None"
    by (simp_all add: errorHandler_out_of_range json_def)
next
  show "\<forall>s\<in>set (sent wa (snd (tasks_get_id e userId taskId wa)))
          \<union> set (sent wa (snd (tasks_put_id e userId taskId body wa)))
          \<union> set (sent wa (snd (tasks_delete_id e userId taskId wa))).
        where_clause s = [Eq ''id'' (Num taskId), Eq ''user_id'' (Num userId)]"
    using sent_handler_get [of wa e userId taskId, unfolded own_task_def]
      sent_handler_put [of wa e userId taskId body, unfolded own_task_def]
      sent_handler_delete [of wa e userId taskId, unfolded own_task_def]
    by (simp add: ball_Un)
qed

text \<open>
  The first user updates a task of the second user with a status that does not exist: 400.
  The first user fetches the task 99999999999, whose id no INTEGER column can hold: 500.
\<close>

theorem foreign_task_not_found_counterexample:
  "stored_task (store demo_world) 1 4 = None
   \<and> fst (tasks_put_id (demo_env 1000) 1 4 [(''status'', Str ''archived'')] demo_world) =
       \<lparr>status = 400, success = False, message = Some ''Validation error'', data = None,
        errors = Some [(''status'', ''any.only'')], stack = None\<rparr>
   \<and> stored_task (store demo_world) 1 99999999999 = None
   \<and> fst (tasks_get_id (demo_env 1000) 1 99999999999 demo_world) =
       \<lparr>status = 500, success = False, message = Some ''Internal Server Error'', data = None,
        errors = None, stack = None\<rparr>"
  by (simp add: stored_task_def demo_world_def demo_db_def task_row_def tasks_put_id_def validate_def
        schema_validate_def taskSchemas_update_def field_errors_def lookup_def validate_value_def
        valid_def allow_def Joi_string_def Joi_number_def Joi_date_iso_def status_values_def
        priority_values_def json_def List.map_filter_simps
        tasks_get_id_def tasks_get_id_handler_def finish_def query_def own_task_def store_defs
        errorHandler_def pg_translation_def Let_def demo_env_def)

theorem foreign_task_not_found_witness:
  "int4 4 \<and> int4 1 \<and> stored_task (store demo_world) 1 4 = None
   \<and> fst (tasks_get_id (demo_env 1000) 1 4 demo_world) = json 404 False (Some ''Task not found'') None
   \<and> fst (tasks_delete_id (demo_env 1000) 1 4 demo_world) = json 404 False (Some ''Task not found'') None
   \<and> store (snd (tasks_delete_id (demo_env 1000) 1 4 demo_world)) = demo_db
   \<and> fst (tasks_put_id (demo_env 1000) 1 4 [(''title'', Str ''Mine now'')] demo_world) =
        json 404 False (Some ''Task not found'') None
   \<and> \<not> int4 99999999999
   \<and> status (fst (tasks_delete_id (demo_env 1000) 1 99999999999 demo_world)) = 500
   \<and> store (snd (tasks_delete_id (demo_env 1000) 1 99999999999 demo_world)) = demo_db"
proof -
  have h: "int4 4 \<and> int4 1 \<and> stored_task (store demo_world) 1 4 = None"
    by (simp add: int4_def stored_task_def demo_defs)
  have v: "schema_validate (demo_env 1000) taskSchemas_update [(''title'', Str ''Mine now'')] =
             Inr [(''title'', Str ''Mine now'')]"
    by (simp add: validate_defs schema_defs)
  have big: "\<not> (int4 99999999999 \<and> int4 1)"
    by (simp add: int4_def)
  note inst = foreign_task_not_found [where e = "demo_env 1000" and userId = 1 and w = demo_world
      and wa = demo_world]
  note found = inst [where taskId = 4 and body = "[(''title'', Str ''Mine now'')]",
      THEN conjunct1, THEN mp, OF h]
  note refused = inst [where taskId = 99999999999, THEN conjunct2, THEN conjunct1, THEN mp, OF big]
  show ?thesis
    using found refused h v big by (simp add: demo_world_def)
qed

section \<open>The completion time of a task\<close>







section \<open>Completion time and status of stored tasks\<close>

text \<open>
  A successful update keeps, for the task it writes, the equivalence between a completion
  time and the status ``completed'': it is set on entering the status, cleared on leaving
  it and left alone otherwise.
\<close>

lemma update_keeps_completion_invariant:
  assumes "tasks_put_id e u t body w = (r, w')" and "status r = 200"
    and "stored_task (store w) u t = Some x"
    and "x ''completed_at'' \<noteq> Null \<longleftrightarrow> x ''status'' = Str ''completed''"
  shows "\<exists>x'. stored_task (store w') u t = Some x'
            \<and> (x' ''completed_at'' \<noteq> Null \<longleftrightarrow> x' ''status'' = Str ''completed'')"
  using tasks_put_id_effect [OF assms(1,2)] assms(3,4)
  by (auto split: option.splits if_splits)

text \<open>
  Claim C2. The claim asks that every stored task has a completion time exactly when its
  status is ``completed''. Creation does not keep this: POST /tasks accepts the status
  ``completed'' and inserts the task without a completion time. Here the first user creates
  such a task; it is stored as task 7, completed, with \<open>completed_at\<close> NULL.
\<close>

theorem created_completed_has_no_completion_time:
  "status (fst (tasks_post (demo_env 1000) 1
       [(''title'', Str ''Ship the release''), (''status'', Str ''completed'')] demo_world)) = 201
   \<and> map_option (\<lambda>x. (x ''status'', x ''completed_at''))
        (stored_task (store (snd (tasks_post (demo_env 1000) 1
           [(''title'', Str ''Ship the release''), (''status'', Str ''completed'')] demo_world))) 1 7) =
       Some (Str ''completed'', Null)"
  by (simp add: route_defs validate_defs schema_defs demo_defs store_defs)

section \<open>The \<open>updated_at\<close> column on updates\<close>

lemma update_then_respond:
  assumes run: "finish e (case query e (UPDATE t sets conds ret) w0 of
                    (Inl err, w2) \<Rightarrow> (Next (thrown err), w2)
                  | (Inr rs, w2) \<Rightarrow> (Respond (json 200 True m (first_row rs)), w2)) = (r, w')"
    and ok: "status r = 200"
  obtains vs cs where
    "bind_values e (map (\<lambda>cx. (fst cx, setval_of (db_now e) (snd cx))) sets) = Inr vs"
    and "bind_conds e conds = Inr cs"
    and "distinct (map fst sets)"
    and "issued w' = issued w0 @ [UPDATE t sets conds ret]"
    and "table_rows (store w') = (table_rows (store w0))(t := map (\<lambda>y. if matches cs y
             then before_update t (db_now e) (assign vs y) else y) (table_rows (store w0) t))"
proof -
  obtain res w2 where q: "query e (UPDATE t sets conds ret) w0 = (res, w2)"
    by (cases "query e (UPDATE t sets conds ret) w0")
  obtain rs where res: "res = Inr rs"
    using run q ok finish_Next_status [of e _ w2 r w']
    by (cases res) auto
  have w': "w' = w2"
    using run q res by (simp add: finish_def)
  obtain vs cs where bv: "bind_values e (map (\<lambda>cx. (fst cx, setval_of (db_now e) (snd cx))) sets) = Inr vs"
    and bc: "bind_conds e conds = Inr cs"
    and dist: "distinct (map fst sets)"
    and tab: "table_rows (store w2) = (table_rows (store w0))(t := map (\<lambda>r. if matches cs r
             then before_update t (db_now e) (assign vs r) else r) (table_rows (store w0) t))"
    and iss: "issued w2 = issued w0 @ [UPDATE t sets conds ret]"
    using query_UPDATE_ok [OF q [unfolded res]] by blast
  show ?thesis
    using that [OF bv bc dist] iss tab unfolding w' by blast
qed

lemma users_put_profile_success:
  assumes run: "users_put_profile e u body w = (r, w')" and ok: "status r = 200"
  shows "\<exists>v pre vs. schema_validate e userSchemas_updateProfile body = Inr v
           \<and> issued w' = issued w @ pre @ [UPDATE Users (updateFields v @ [(''updated_at'', CURRENT_TIMESTAMP)])
                 [Eq ''id'' (Num u)] [''id'', ''name'', ''email'', ''avatar_url'', ''created_at'', ''updated_at'']]
           \<and> table_rows (store w') = (table_rows (store w))(Users := map (\<lambda>y. if matches [Eq ''id'' (Num u)] y
                 then before_update Users (db_now e) (assign vs y)
                 else y) (table_rows (store w) Users))"
proof -
  obtain v where v: "validate e userSchemas_updateProfile body = Inr v"
    using run ok validate_Inl_status [of e userSchemas_updateProfile body]
    by (cases "validate e userSchemas_updateProfile body") (auto simp: users_put_profile_def)
  have h: "finish e (users_put_profile_handler e u v w) = (r, w')"
    using run v by (simp add: users_put_profile_def)
  obtain w0 pre where s0: "store w0 = store w" and i0: "issued w0 = issued w @ pre"
    and h0: "finish e (users_put_profile_update e u v w0) = (r, w')"
  proof (cases "truthy (lookup v ''email'')")
    case False
    then have "finish e (users_put_profile_update e u v w) = (r, w')"
      using h by (simp add: users_put_profile_handler_def)
    then show ?thesis
      using that [of w "[]"] by simp
  next
    case True
    define q where "q = SELECT [''id''] Users [Eq ''email'' (param (lookup v ''email'')), Ne ''id'' (Num u)]"
    have read: "\<exists>cs. bind_conds e [Eq ''email'' (param (lookup v ''email'')), Ne ''id'' (Num u)] = Inr cs"
    proof (rule ccontr)
      assume "\<not> ?thesis"
      then obtain err where
        "bind_conds e [Eq ''email'' (param (lookup v ''email'')), Ne ''id'' (Num u)] = Inl err"
        by (cases "bind_conds e [Eq ''email'' (param (lookup v ''email'')), Ne ''id'' (Num u)]") auto
      then have "users_put_profile_handler e u v w = (Next (thrown err), w\<lparr>issued := issued w @ [q]\<rparr>)"
        using True by (simp add: users_put_profile_handler_def query_SELECT q_def)
      then show False
        using h ok finish_Next_status [of e err _ r w'] by simp
    qed
    have bc: "bind_conds e [Eq ''email'' (param (lookup v ''email'')), Ne ''id'' (Num u)] =
                Inr [Eq ''email'' (param (lookup v ''email'')), Ne ''id'' (Num u)]"
      using read by (auto simp: bind_email split: if_splits)
    have "finish e (users_put_profile_update e u v (w\<lparr>issued := issued w @ [q]\<rparr>)) = (r, w')"
      using h True ok
      by (cases "filter (matches [Eq ''email'' (param (lookup v ''email'')), Ne ''id'' (Num u)]) (table_rows (store w) Users)")
         (auto simp: users_put_profile_handler_def query_SELECT bc q_def finish_def json_def)
    then show ?thesis
      using that [of "w\<lparr>issued := issued w @ [q]\<rparr>" "[q]"] by simp
  qed
  have nonempty: "updateFields v \<noteq> []"
    using h0 ok by (auto simp: users_put_profile_update_def finish_def json_def Let_def split: if_splits)
  have tail: "finish e (case query e (UPDATE Users (updateFields v @ [(''updated_at'', CURRENT_TIMESTAMP)])
                            [Eq ''id'' (Num u)]
                            [''id'', ''name'', ''email'', ''avatar_url'', ''created_at'', ''updated_at'']) w0 of
              (Inl err, w1) \<Rightarrow> (Next (thrown err), w1)
            | (Inr rs, w1) \<Rightarrow>
                (Respond (json 200 True (Some ''Profile updated successfully'') (first_row rs)), w1)) = (r, w')"
    using h0 nonempty by (auto simp: users_put_profile_update_def Let_def split: if_splits)
  obtain vs cs where bc: "bind_conds e [Eq ''id'' (Num u)] = Inr cs"
    and iss: "issued w' = issued w0 @ [UPDATE Users (updateFields v @ [(''updated_at'', CURRENT_TIMESTAMP)])
                 [Eq ''id'' (Num u)] [''id'', ''name'', ''email'', ''avatar_url'', ''created_at'', ''updated_at'']]"
    and tab: "table_rows (store w') = (table_rows (store w0))(Users := map (\<lambda>y. if matches cs y
             then before_update Users (db_now e) (assign vs y) else y) (table_rows (store w0) Users))"
    using update_then_respond [OF tail ok] by blast
  have cs: "cs = [Eq ''id'' (Num u)]"
    using bc by (auto simp: bind_id split: if_splits)
  show ?thesis
    using v iss tab unfolding s0 i0 cs
    by (intro exI [of _ v] exI [of _ pre] exI [of _ vs]) (simp add: validate_Inr)
qed

lemma categories_put_id_success:
  assumes run: "categories_put_id e u c body w = (r, w')" and ok: "status r = 200"
  shows "\<exists>v pre. schema_validate e categorySchemas_update body = Inr v
           \<and> set (map fst v) \<subseteq> {''name'', ''color''}
           \<and> issued w' = issued w @ pre @ [UPDATE Categories (updateFields v) (own_category c u)
                 [''id'', ''name'', ''color'', ''created_at'']]"
proof -
  obtain v where v: "validate e categorySchemas_update body = Inr v"
    using run ok validate_Inl_status [of e categorySchemas_update body]
    by (cases "validate e categorySchemas_update body") (auto simp: categories_put_id_def)
  have sv: "schema_validate e categorySchemas_update body = Inr v"
    using v by (simp add: validate_Inr)
  have keys: "set (map fst v) \<subseteq> {''name'', ''color''}"
    using keys_normalized [of e categorySchemas_update body] schema_validate_Inr(1) [OF sv]
    by (simp add: categorySchemas_update_def)
  have h: "finish e (categories_put_id_handler e u c v w) = (r, w')"
    using run v by (simp add: categories_put_id_def)
  define q1 where "q1 = SELECT [''id'', ''user_id''] Categories [Eq ''id'' (Num c)]"
  define w1 where "w1 = w\<lparr>issued := issued w @ [q1]\<rparr>"
  have ic: "int4 c"
  proof (rule ccontr)
    assume "\<not> int4 c"
    then have "bind_conds e [Eq ''id'' (Num c)] = Inl out_of_range"
      by (simp add: bind_id)
    then have "categories_put_id_handler e u c v w = (Next (thrown out_of_range), w1)"
      by (simp add: categories_put_id_handler_def query_SELECT q1_def w1_def)
    then show False
      using h ok finish_Next_status [of e out_of_range _ r w'] by simp
  qed
  have bc1: "bind_conds e [Eq ''id'' (Num c)] = Inr [Eq ''id'' (Num c)]"
    using ic by (simp add: bind_id)
  have h1: "finish e (categories_put_id_named e u c v w1) = (r, w')"
    using h ok
    by (cases "filter (matches [Eq ''id'' (Num c)]) (table_rows (store w) Categories)")
       (auto simp: categories_put_id_handler_def query_SELECT bc1 q1_def w1_def finish_def json_def
             split: if_splits)
  obtain w0 pre where i0: "issued w0 = issued w @ pre"
    and h0: "finish e (categories_put_id_update e u c v w0) = (r, w')"
  proof (cases "truthy (lookup v ''name'')")
    case False
    then have "finish e (categories_put_id_update e u c v w1) = (r, w')"
      using h1 by (simp add: categories_put_id_named_def)
    then show ?thesis
      using that [of w1 "[q1]"] by (simp add: w1_def)
  next
    case True
    define q2 where "q2 = SELECT [''id''] Categories
                            [Eq ''name'' (param (lookup v ''name'')), Eq ''user_id'' (Num u), Ne ''id'' (Num c)]"
    have read: "\<exists>cs. bind_conds e [Eq ''name'' (param (lookup v ''name'')), Eq ''user_id'' (Num u),
                                     Ne ''id'' (Num c)] = Inr cs"
    proof (rule ccontr)
      assume "\<not> ?thesis"
      then obtain err where
        "bind_conds e [Eq ''name'' (param (lookup v ''name'')), Eq ''user_id'' (Num u), Ne ''id'' (Num c)]
           = Inl err"
        by (cases "bind_conds e [Eq ''name'' (param (lookup v ''name'')), Eq ''user_id'' (Num u),
                                 Ne ''id'' (Num c)]") auto
      then have "categories_put_id_named e u c v w1 = (Next (thrown err), w1\<lparr>issued := issued w1 @ [q2]\<rparr>)"
        using True by (simp add: categories_put_id_named_def query_SELECT q2_def)
      then show False
        using h1 ok finish_Next_status [of e err _ r w'] by simp
    qed
    have bc2: "bind_conds e [Eq ''name'' (param (lookup v ''name'')), Eq ''user_id'' (Num u), Ne ''id'' (Num c)]
                 = Inr [Eq ''name'' (param (lookup v ''name'')), Eq ''user_id'' (Num u), Ne ''id'' (Num c)]"
      using read by (auto simp: bind_name split: if_splits)
    have "finish e (categories_put_id_update e u c v (w1\<lparr>issued := issued w1 @ [q2]\<rparr>)) = (r, w')"
      using h1 True ok
      by (cases "filter (matches [Eq ''name'' (param (lookup v ''name'')), Eq ''user_id'' (Num u), Ne ''id'' (Num c)])
                   (table_rows (store w1) Categories)")
         (auto simp: categories_put_id_named_def query_SELECT bc2 q2_def finish_def json_def)
    then show ?thesis
      using that [of "w1\<lparr>issued := issued w1 @ [q2]\<rparr>" "[q1, q2]"] by (simp add: w1_def)
  qed
  have nonempty: "updateFields v \<noteq> []"
    using h0 ok by (auto simp: categories_put_id_update_def finish_def json_def Let_def split: if_splits)
  have tail: "finish e (case query e (UPDATE Categories (updateFields v) (own_category c u)
                            [''id'', ''name'', ''color'', ''created_at'']) w0 of
              (Inl err, w1) \<Rightarrow> (Next (thrown err), w1)
            | (Inr rs, w1) \<Rightarrow>
                (Respond (json 200 True (Some ''Category updated successfully'') (first_row rs)), w1)) = (r, w')"
    using h0 nonempty by (auto simp: categories_put_id_update_def Let_def split: if_splits)
  obtain vs cs where iss: "issued w' = issued w0 @ [UPDATE Categories (updateFields v) (own_category c u)
                            [''id'', ''name'', ''color'', ''created_at'']]"
    using update_then_respond [OF tail ok] by blast
  show ?thesis
    using sv keys iss unfolding i0 by auto
qed

lemma last_sent: "issued w' = issued w @ pre @ [s] \<Longrightarrow> last (sent w w') = s"
  by (simp add: sent_def)

lemma category_update_validated:
  assumes "schema_validate e categorySchemas_update body = Inr v"
  shows "v = filter (\<lambda>kv. fst kv = ''name'' \<or> fst kv = ''color'') body"
proof -
  have v: "v = normalized e categorySchemas_update body"
    using assms by (rule schema_validate_Inr)
  have none: "List.map_filter (missing_default body) categorySchemas_update = []"
    by (simp add: categorySchemas_update_def missing_default_def List.map_filter_simps Joi_string_def
          split: option.splits)
  have str: "coerce e JoiString x = x" for x
    by (cases x) simp_all
  have kept: "List.map_filter (known e categorySchemas_update) raw =
                filter (\<lambda>kv. fst kv = ''name'' \<or> fst kv = ''color'') raw" for raw
    by (induction raw)
       (auto simp: List.map_filter_simps known_def categorySchemas_update_def snd_validate_value
          Joi_string_def str)
  show ?thesis
    unfolding v normalized_def none kept by simp
qed

text \<open>
  Claim C6, as amended. A successful update of a task and a successful update of the
  profile end with an UPDATE statement whose SET list closes with
  \<open>updated_at = CURRENT_TIMESTAMP\<close>, and the row written carries the time of the storage
  engine in \<open>updated_at\<close>. A successful update of a category ends with an UPDATE statement
  whose SET list is the fields \<open>name\<close> and \<open>color\<close> of the request body, each with its
  value, in the order of the body, and nothing else: the categories table has no
  \<open>updated_at\<close> column and the statement does not name one.
\<close>

theorem updated_at_is_touched:
  "(tasks_put_id e u t body w = (r, w') \<and> status r = 200 \<longrightarrow>
      (\<exists>sets. last (sent w w') =
          UPDATE Tasks (sets @ [(''updated_at'', CURRENT_TIMESTAMP)])
            [Eq ''id'' (Num t), Eq ''user_id'' (Num u)] task_columns)
    \<and> (\<exists>x'. stored_task (store w') u t = Some x' \<and> x' ''updated_at'' = Date (db_now e)))
 \<and> (users_put_profile e u body w = (r, w') \<and> status r = 200 \<longrightarrow>
      (\<exists>sets. last (sent w w') =
          UPDATE Users (sets @ [(''updated_at'', CURRENT_TIMESTAMP)]) [Eq ''id'' (Num u)]
            [''id'', ''name'', ''email'', ''avatar_url'', ''created_at'', ''updated_at''])
    \<and> (\<forall>x'\<in>set (table_rows (store w') Users). x' ''id'' = Num u \<longrightarrow> x' ''updated_at'' = Date (db_now e)))
 \<and> (categories_put_id e u c body w = (r, w') \<and> status r = 200 \<longrightarrow>
      (\<exists>sets. last (sent w w') =
          UPDATE Categories sets [Eq ''id'' (Num c), Eq ''user_id'' (Num u)]
            [''id'', ''name'', ''color'', ''created_at'']
        \<and> sets = updateFields (filter (\<lambda>kv. fst kv = ''name'' \<or> fst kv = ''color'') body)
        \<and> ''updated_at'' \<notin> set (map fst sets)))"
proof (intro conjI impI)
  assume a: "tasks_put_id e u t body w = (r, w') \<and> status r = 200"
  then have run: "tasks_put_id e u t body w = (r, w')" and ok: "status r = 200"
    by simp_all
  obtain v x where "issued w' = issued w @
           [SELECT [''id'', ''status''] Tasks (own_task t u),
            UPDATE Tasks (updateFields v @ completed_at_field e v (project [''id'', ''status''] x)
                            @ [(''updated_at'', CURRENT_TIMESTAMP)]) (own_task t u) task_columns]"
    using run ok by (rule tasks_put_id_success)
  then have "last (sent w w') =
      UPDATE Tasks ((updateFields v @ completed_at_field e v (project [''id'', ''status''] x))
                       @ [(''updated_at'', CURRENT_TIMESTAMP)]) (own_task t u) task_columns"
    by (simp add: sent_def)
  then show "\<exists>sets. last (sent w w') =
          UPDATE Tasks (sets @ [(''updated_at'', CURRENT_TIMESTAMP)])
            [Eq ''id'' (Num t), Eq ''user_id'' (Num u)] task_columns"
    unfolding own_task_def
    by (intro exI [of _ "updateFields v @ completed_at_field e v (project [''id'', ''status''] x)"])
  show "\<exists>x'. stored_task (store w') u t = Some x' \<and> x' ''updated_at'' = Date (db_now e)"
    using tasks_put_id_effect [OF run ok] by blast
next
  assume a: "users_put_profile e u body w = (r, w') \<and> status r = 200"
  then have run: "users_put_profile e u body w = (r, w')" and ok: "status r = 200"
    by simp_all
  obtain v pre vs where i: "issued w' = issued w @ pre @ [UPDATE Users (updateFields v @ [(''updated_at'', CURRENT_TIMESTAMP)])
                 [Eq ''id'' (Num u)] [''id'', ''name'', ''email'', ''avatar_url'', ''created_at'', ''updated_at'']]"
    and tab: "table_rows (store w') = (table_rows (store w))(Users := map (\<lambda>y. if matches [Eq ''id'' (Num u)] y
                 then before_update Users (db_now e) (assign vs y)
                 else y) (table_rows (store w) Users))"
    using users_put_profile_success [OF run ok] by blast
  show "\<exists>sets. last (sent w w') =
          UPDATE Users (sets @ [(''updated_at'', CURRENT_TIMESTAMP)]) [Eq ''id'' (Num u)]
            [''id'', ''name'', ''email'', ''avatar_url'', ''created_at'', ''updated_at'']"
    using last_sent [OF i] by (intro exI [of _ "updateFields v"])
  have m: "matches [Eq ''id'' (Num u)] y = (y ''id'' = Num u)" for y
    by (simp add: matches_def)
  show "\<forall>x'\<in>set (table_rows (store w') Users). x' ''id'' = Num u \<longrightarrow> x' ''updated_at'' = Date (db_now e)"
    unfolding tab by (auto simp: m)
next
  assume a: "categories_put_id e u c body w = (r, w') \<and> status r = 200"
  then have run: "categories_put_id e u c body w = (r, w')" and ok: "status r = 200"
    by simp_all
  obtain v pre where sv: "schema_validate e categorySchemas_update body = Inr v"
    and keys: "set (map fst v) \<subseteq> {''name'', ''color''}"
    and i: "issued w' = issued w @ pre @ [UPDATE Categories (updateFields v) (own_category c u)
                 [''id'', ''name'', ''color'', ''created_at'']]"
    using categories_put_id_success [OF run ok] by blast
  have l: "last (sent w w') = UPDATE Categories (updateFields v) [Eq ''id'' (Num c), Eq ''user_id'' (Num u)]
            [''id'', ''name'', ''color'', ''created_at'']"
    using last_sent [OF i] by (simp add: own_category_def)
  have f: "updateFields v = updateFields (filter (\<lambda>kv. fst kv = ''name'' \<or> fst kv = ''color'') body)"
    using category_update_validated [OF sv] by simp
  have n: "''updated_at'' \<notin> set (map fst (updateFields v))"
    using keys unfolding keys_updateFields by auto
  show "\<exists>sets. last (sent w w') =
          UPDATE Categories sets [Eq ''id'' (Num c), Eq ''user_id'' (Num u)]
            [''id'', ''name'', ''color'', ''created_at'']
        \<and> sets = updateFields (filter (\<lambda>kv. fst kv = ''name'' \<or> fst kv = ''color'') body)
        \<and> ''updated_at'' \<notin> set (map fst sets)"
    using l f n by (intro exI [of _ "updateFields v"] conjI)
qed

lemmas route_defs2 = categories_put_id_def categories_put_id_handler_def categories_put_id_named_def
  categories_put_id_update_def own_category_def users_put_profile_def users_put_profile_handler_def
  users_put_profile_update_def sent_def stored_category_def

lemma demo_put_task:
  "status (fst (tasks_put_id (demo_env 1000) 2 4 [(''title'', Str ''Learn Isabelle'')] demo_world)) = 200"
  by (simp add: route_defs validate_defs schema_defs demo_defs store_defs)

lemma demo_put_profile:
  "status (fst (users_put_profile (demo_env 1000) 2 [(''name'', Str ''John D. Doe'')] demo_world)) = 200"
  by (simp add: route_defs route_defs2 validate_defs schema_defs demo_defs store_defs)

lemma demo_put_category:
  "status (fst (categories_put_id (demo_env 1000) 2 5 [(''color'', Str ''#112233'')] demo_world)) = 200"
  by (simp add: route_defs route_defs2 validate_defs schema_defs demo_defs store_defs hex_color_def)

text \<open>The second user recolours the own category: the statement sets \<open>color\<close> and nothing else.\<close>

theorem category_update_has_no_updated_at_counterexample:
  "status (fst (categories_put_id (demo_env 1000) 2 5 [(''color'', Str ''#112233'')] demo_world)) = 200
   \<and> sent demo_world (snd (categories_put_id (demo_env 1000) 2 5 [(''color'', Str ''#112233'')] demo_world)) =
       [SELECT [''id'', ''user_id''] Categories [Eq ''id'' (Num 5)],
        UPDATE Categories [(''color'', Param (Str ''#112233''))]
          [Eq ''id'' (Num 5), Eq ''user_id'' (Num 2)] [''id'', ''name'', ''color'', ''created_at'']]"
  by (simp add: route_defs route_defs2 validate_defs schema_defs demo_defs store_defs hex_color_def)

theorem updated_at_is_touched_witness:
  "status (fst (tasks_put_id (demo_env 1000) 2 4 [(''title'', Str ''Learn Isabelle'')] demo_world)) = 200
   \<and> (\<exists>x'. stored_task (store (snd (tasks_put_id (demo_env 1000) 2 4 [(''title'', Str ''Learn Isabelle'')] demo_world))) 2 4 = Some x'
          \<and> x' ''updated_at'' = Date 1000)
   \<and> status (fst (users_put_profile (demo_env 1000) 2 [(''name'', Str ''John D. Doe'')] demo_world)) = 200
   \<and> list_all (\<lambda>x'. x' ''updated_at'' = Date 1000)
         (filter (\<lambda>x'. x' ''id'' = Num 2)
            (table_rows (store (snd (users_put_profile (demo_env 1000) 2 [(''name'', Str ''John D. Doe'')] demo_world))) Users))
   \<and> status (fst (categories_put_id (demo_env 1000) 2 5
         [(''color'', Str ''#112233''), (''updated_at'', Date 1000)] demo_world)) = 200
   \<and> last (sent demo_world (snd (categories_put_id (demo_env 1000) 2 5
         [(''color'', Str ''#112233''), (''updated_at'', Date 1000)] demo_world))) =
       UPDATE Categories [(''color'', Param (Str ''#112233''))] [Eq ''id'' (Num 5), Eq ''user_id'' (Num 2)]
         [''id'', ''name'', ''color'', ''created_at'']"
proof -
  define T where "T = tasks_put_id (demo_env 1000) 2 4 [(''title'', Str ''Learn Isabelle'')] demo_world"
  define U where "U = users_put_profile (demo_env 1000) 2 [(''name'', Str ''John D. Doe'')] demo_world"
  define C where "C = categories_put_id (demo_env 1000) 2 5
                        [(''color'', Str ''#112233''), (''updated_at'', Date 1000)] demo_world"
  have now: "db_now (demo_env 1000) = 1000"
    by (simp add: demo_env_def)
  have t: "tasks_put_id (demo_env 1000) 2 4 [(''title'', Str ''Learn Isabelle'')] demo_world = (fst T, snd T)
             \<and> status (fst T) = 200"
    using demo_put_task by (simp add: T_def)
  have u: "users_put_profile (demo_env 1000) 2 [(''name'', Str ''John D. Doe'')] demo_world = (fst U, snd U)
             \<and> status (fst U) = 200"
    using demo_put_profile by (simp add: U_def)
  have ok: "status (fst C) = 200"
    unfolding C_def
    by (simp add: route_defs route_defs2 validate_defs schema_defs demo_defs store_defs hex_color_def)
  have c: "categories_put_id (demo_env 1000) 2 5 [(''color'', Str ''#112233''), (''updated_at'', Date 1000)] demo_world
             = (fst C, snd C) \<and> status (fst C) = 200"
    using ok by (simp add: C_def)
  note a = updated_at_is_touched [where e = "demo_env 1000" and u = 2 and t = 4 and w = demo_world
      and body = "[(''title'', Str ''Learn Isabelle'')]" and r = "fst T" and w' = "snd T",
      THEN conjunct1, THEN mp, OF t, THEN conjunct2, unfolded now]
  note b = updated_at_is_touched [where e = "demo_env 1000" and u = 2 and w = demo_world
      and body = "[(''name'', Str ''John D. Doe'')]" and r = "fst U" and w' = "snd U",
      THEN conjunct2, THEN conjunct1, THEN mp, OF u, THEN conjunct2, unfolded now]
  note d = updated_at_is_touched [where e = "demo_env 1000" and u = 2 and c = 5 and w = demo_world
      and body = "[(''color'', Str ''#112233''), (''updated_at'', Date 1000)]" and r = "fst C" and w' = "snd C",
      THEN conjunct2, THEN conjunct2, THEN mp, OF c]
  have b': "list_all (\<lambda>x'. x' ''updated_at'' = Date 1000)
              (filter (\<lambda>x'. x' ''id'' = Num 2) (table_rows (store (snd U)) Users))"
    using b by (simp add: list_all_iff)
  have d': "last (sent demo_world (snd C)) =
       UPDATE Categories [(''color'', Param (Str ''#112233''))] [Eq ''id'' (Num 5), Eq ''user_id'' (Num 2)]
         [''id'', ''name'', ''color'', ''created_at'']"
    using d by (auto simp: updateFields_def)
  show ?thesis
    using a b' d' t u c unfolding T_def U_def C_def by (intro conjI) simp_all
qed

section \<open>Updates without any recognised field\<close>

text \<open>
  Claim C3, as amended. When the validated body of an update has no recognised field, no
  UPDATE statement is sent and the store stays as it is. The profile update answers 400
  ``No valid fields to update''. The task update sends its lookup and, with the ids within
  the INTEGER type of the columns, answers that 400 when the caller owns a task with the
  id, and 404 ``Task not found'' otherwise. The category update sends its lookup and, with
  the category id within the type, answers that 400 when the category exists and belongs
  to the caller, 404 when it does not exist and 403 when it belongs to nobody or to
  someone else. With an id outside the type the lookup is refused by the storage engine,
  and the answer is that of the error handler, status 500.
\<close>

theorem update_without_fields:
  "(schema_validate e userSchemas_updateProfile body = Inr [] \<longrightarrow>
      users_put_profile e u body w = (json 400 False (Some ''No valid fields to update'') None, w))
 \<and> (schema_validate e taskSchemas_update body = Inr [] \<and> int4 t \<and> int4 u \<longrightarrow>
      tasks_put_id e u t body w =
        (case stored_task (store w) u t of
           None \<Rightarrow> json 404 False (Some ''Task not found'') None
         | Some x \<Rightarrow> json 400 False (Some ''No valid fields to update'') None,
         w\<lparr>issued := issued w @ [SELECT [''id'', ''status''] Tasks [Eq ''id'' (Num t), Eq ''user_id'' (Num u)]]\<rparr>))
 \<and> (schema_validate e categorySchemas_update body = Inr [] \<and> int4 c \<longrightarrow>
      categories_put_id e u c body w =
        (case find (\<lambda>x. x ''id'' = Num c) (table_rows (store w) Categories) of
           None \<Rightarrow> json 404 False (Some ''Category not found'') None
         | Some x \<Rightarrow> if x ''user_id'' = Num u
                     then json 400 False (Some ''No valid fields to update'') None
                     else json 403 False (Some ''Cannot update default categories'') None,
         w\<lparr>issued := issued w @ [SELECT [''id'', ''user_id''] Categories [Eq ''id'' (Num c)]]\<rparr>))
 \<and> (schema_validate e taskSchemas_update body = Inr [] \<and> \<not> (int4 t \<and> int4 u) \<longrightarrow>
      tasks_put_id e u t body w =
        (errorHandler e (thrown out_of_range),
         w\<lparr>issued := issued w @ [SELECT [''id'', ''status''] Tasks [Eq ''id'' (Num t), Eq ''user_id'' (Num u)]]\<rparr>))
 \<and> (schema_validate e categorySchemas_update body = Inr [] \<and> \<not> int4 c \<longrightarrow>
      categories_put_id e u c body w =
        (errorHandler e (thrown out_of_range),
         w\<lparr>issued := issued w @ [SELECT [''id'', ''user_id''] Categories [Eq ''id'' (Num c)]]\<rparr>))
 \<and> status (errorHandler e (thrown out_of_range)) = 500
 \<and> data (errorHandler e (thrown out_of_range)) = None"
proof (intro conjI impI)
  assume "schema_validate e userSchemas_updateProfile body = Inr []"
  then have "validate e userSchemas_updateProfile body = Inr []"
    by (simp add: validate_Inr)
  then show "users_put_profile e u body w = (json 400 False (Some ''No valid fields to update'') None, w)"
    by (simp add: users_put_profile_def users_put_profile_handler_def users_put_profile_update_def
          updateFields_def lookup_def finish_def)
next
  assume a: "schema_validate e taskSchemas_update body = Inr [] \<and> int4 t \<and> int4 u"
  then have v: "validate e taskSchemas_update body = Inr []"
    by (simp add: validate_Inr)
  have bc: "bind_conds e (own_task t u) = Inr (own_task t u)"
    using a by (simp add: bind_own_task)
  have none: "completed_at_field e [] ex = []" for ex
    by (rule completed_at_field_None) (simp add: lookup_def)
  have m: "matches (own_task t u) = (\<lambda>r. r ''id'' = Num t \<and> r ''user_id'' = Num u)"
    by (rule ext) (rule matches_own_task)
  have "tasks_put_id e u t body w =
        (case stored_task (store w) u t of
           None \<Rightarrow> json 404 False (Some ''Task not found'') None
         | Some x \<Rightarrow> json 400 False (Some ''No valid fields to update'') None,
         w\<lparr>issued := issued w @ [SELECT [''id'', ''status''] Tasks (own_task t u)]\<rparr>)"
    using v
    by (cases "filter (\<lambda>r. r ''id'' = Num t \<and> r ''user_id'' = Num u) (table_rows (store w) Tasks)")
       (simp_all add: tasks_put_id_def tasks_put_id_handler_def query_SELECT bc m none updateFields_def
          finish_def stored_task_def find_filter)
  then show "tasks_put_id e u t body w =
        (case stored_task (store w) u t of
           None \<Rightarrow> json 404 False (Some ''Task not found'') None
         | Some x \<Rightarrow> json 400 False (Some ''No valid fields to update'') None,
         w\<lparr>issued := issued w @ [SELECT [''id'', ''status''] Tasks [Eq ''id'' (Num t), Eq ''user_id'' (Num u)]]\<rparr>)"
    unfolding own_task_def .
next
  assume a: "schema_validate e categorySchemas_update body = Inr [] \<and> int4 c"
  then have v: "validate e categorySchemas_update body = Inr []"
    by (simp add: validate_Inr)
  have bc: "bind_conds e [Eq ''id'' (Num c)] = Inr [Eq ''id'' (Num c)]"
    using a by (simp add: bind_id)
  have m: "matches [Eq ''id'' (Num c)] = (\<lambda>r. r ''id'' = Num c)"
    by (rule ext) (simp add: matches_def)
  show "categories_put_id e u c body w =
        (case find (\<lambda>x. x ''id'' = Num c) (table_rows (store w) Categories) of
           None \<Rightarrow> json 404 False (Some ''Category not found'') None
         | Some x \<Rightarrow> if x ''user_id'' = Num u
                     then json 400 False (Some ''No valid fields to update'') None
                     else json 403 False (Some ''Cannot update default categories'') None,
         w\<lparr>issued := issued w @ [SELECT [''id'', ''user_id''] Categories [Eq ''id'' (Num c)]]\<rparr>)"
    using v
    by (cases "filter (\<lambda>r. r ''id'' = Num c) (table_rows (store w) Categories)")
       (simp_all add: categories_put_id_def categories_put_id_handler_def categories_put_id_named_def
          categories_put_id_update_def query_SELECT bc m updateFields_def lookup_def project_def
          finish_def find_filter)
next
  assume a: "schema_validate e taskSchemas_update body = Inr [] \<and> \<not> (int4 t \<and> int4 u)"
  then have v: "validate e taskSchemas_update body = Inr []"
    by (simp add: validate_Inr)
  have "\<not> (int4 t \<and> int4 u)"
    using a by simp
  then have bc: "bind_conds e (own_task t u) = Inl out_of_range"
    unfolding bind_own_task by (rule if_not_P)
  have "tasks_put_id e u t body w =
        (errorHandler e (thrown out_of_range),
         w\<lparr>issued := issued w @ [SELECT [''id'', ''status''] Tasks (own_task t u)]\<rparr>)"
    using v by (simp add: tasks_put_id_def tasks_put_id_handler_def query_SELECT bc finish_def)
  then show "tasks_put_id e u t body w =
        (errorHandler e (thrown out_of_range),
         w\<lparr>issued := issued w @ [SELECT [''id'', ''status''] Tasks [Eq ''id'' (Num t), Eq ''user_id'' (Num u)]]\<rparr>)"
    unfolding own_task_def .
next
  assume a: "schema_validate e categorySchemas_update body = Inr [] \<and> \<not> int4 c"
  then have v: "validate e categorySchemas_update body = Inr []"
    by (simp add: validate_Inr)
  have bc: "bind_conds e [Eq ''id'' (Num c)] = Inl out_of_range"
    using a by (simp add: bind_id)
  show "categories_put_id e u c body w =
        (errorHandler e (thrown out_of_range),
         w\<lparr>issued := issued w @ [SELECT [''id'', ''user_id''] Categories [Eq ''id'' (Num c)]]\<rparr>)"
    using v by (simp add: categories_put_id_def categories_put_id_handler_def query_SELECT bc finish_def)
next
  show "status (errorHandler e (thrown out_of_range)) = 500"
    and "data (errorHandler e (thrown out_of_range)) = None"
    by (simp_all add: errorHandler_out_of_range json_def)
qed

text \<open>
  The first user sends an update without recognised fields to a task of the second user:
  404. The same update sent to the task 99999999999, whose id no INTEGER column can hold:
  500.
\<close>

theorem update_without_fields_counterexample:
  "schema_validate (demo_env 1000) taskSchemas_update [(''shade'', Str ''red'')] = Inr []
   \<and> stored_task (store demo_world) 1 4 = None
   \<and> fst (tasks_put_id (demo_env 1000) 1 4 [(''shade'', Str ''red'')] demo_world) =
       \<lparr>status = 404, success = False, message = Some ''Task not found'', data = None,
        errors = None, stack = None\<rparr>
   \<and> fst (tasks_put_id (demo_env 1000) 1 99999999999 [(''shade'', Str ''red'')] demo_world) =
       \<lparr>status = 500, success = False, message = Some ''Internal Server Error'', data = None,
        errors = None, stack = None\<rparr>"
  by (simp add: route_defs validate_defs schema_defs demo_defs store_defs errorHandler_def
        pg_translation_def Let_def)

theorem update_without_fields_witness:
  "schema_validate (demo_env 1000) userSchemas_updateProfile [(''shade'', Str ''red'')] = Inr []
   \<and> users_put_profile (demo_env 1000) 2 [(''shade'', Str ''red'')] demo_world =
        (json 400 False (Some ''No valid fields to update'') None, demo_world)
   \<and> schema_validate (demo_env 1000) taskSchemas_update [(''shade'', Str ''red'')] = Inr []
   \<and> int4 4 \<and> int4 2 \<and> int4 5
   \<and> tasks_put_id (demo_env 1000) 2 4 [(''shade'', Str ''red'')] demo_world =
        (json 400 False (Some ''No valid fields to update'') None,
         demo_world\<lparr>issued := [SELECT [''id'', ''status''] Tasks [Eq ''id'' (Num 4), Eq ''user_id'' (Num 2)]]\<rparr>)
   \<and> schema_validate (demo_env 1000) categorySchemas_update [(''shade'', Str ''red'')] = Inr []
   \<and> categories_put_id (demo_env 1000) 2 5 [(''shade'', Str ''red'')] demo_world =
        (json 400 False (Some ''No valid fields to update'') None,
         demo_world\<lparr>issued := [SELECT [''id'', ''user_id''] Categories [Eq ''id'' (Num 5)]]\<rparr>)
   \<and> \<not> int4 99999999999
   \<and> status (fst (categories_put_id (demo_env 1000) 2 99999999999 [(''shade'', Str ''red'')] demo_world)) = 500"
proof -
  have p: "schema_validate (demo_env 1000) userSchemas_updateProfile [(''shade'', Str ''red'')] = Inr []"
    and t: "schema_validate (demo_env 1000) taskSchemas_update [(''shade'', Str ''red'')] = Inr []"
    and c: "schema_validate (demo_env 1000) categorySchemas_update [(''shade'', Str ''red'')] = Inr []"
    by (simp_all add: validate_defs schema_defs)
  have r: "int4 4" "int4 2" "int4 5" "\<not> int4 99999999999"
    by (simp_all add: int4_def)
  have st: "\<exists>x. stored_task (store demo_world) 2 4 = Some x"
    by (simp add: stored_task_def demo_defs)
  have sc: "\<exists>x. find (\<lambda>x. x ''id'' = Num 5) (table_rows (store demo_world) Categories) = Some x
                \<and> x ''user_id'' = Num 2"
    by (simp add: demo_defs)
  have i: "issued demo_world = []"
    by (simp add: demo_world_def)
  note inst = update_without_fields [where e = "demo_env 1000" and u = 2 and body = "[(''shade'', Str ''red'')]"
      and w = demo_world]
  have t': "schema_validate (demo_env 1000) taskSchemas_update [(''shade'', Str ''red'')] = Inr []
              \<and> int4 4 \<and> int4 2"
    using t r by simp
  have c': "schema_validate (demo_env 1000) categorySchemas_update [(''shade'', Str ''red'')] = Inr []
              \<and> int4 5"
    using c r by simp
  have c'': "schema_validate (demo_env 1000) categorySchemas_update [(''shade'', Str ''red'')] = Inr []
              \<and> \<not> int4 99999999999"
    using c r by simp
  note profile = inst [THEN conjunct1, THEN mp, OF p]
  note task = inst [where t = 4, THEN conjunct2, THEN conjunct1, THEN mp, OF t']
  note category = inst [where c = 5, THEN conjunct2, THEN conjunct2, THEN conjunct1, THEN mp, OF c']
  note refused = inst [where c = 99999999999, THEN conjunct2, THEN conjunct2, THEN conjunct2, THEN conjunct2,
      THEN conjunct1, THEN mp, OF c'']
  note five = inst [THEN conjunct2, THEN conjunct2, THEN conjunct2, THEN conjunct2, THEN conjunct2,
      THEN conjunct1]
  show ?thesis
    using profile task category refused five p t c r st sc i
    by auto
qed

section \<open>Deleting a category that tasks refer to\<close>

text \<open>
  Claim C10. When the caller deletes an own category, the count that can block the deletion
  is the result of a statement filtered by the category id and by the caller's user id: it
  counts the caller's tasks in the category and no others. A positive count answers 400 with
  exactly that count in the message and leaves the store as it was; a count of zero deletes
  the category, however many tasks of other users refer to it.
\<close>

theorem category_deletion_counts_own_tasks:
  assumes "stored_category (store w) c = Some x" and "x ''user_id'' = Num u"
  shows "if 0 < length (filter (\<lambda>t. t ''category_id'' = Num c \<and> t ''user_id'' = Num u)
                          (table_rows (store w) Tasks))
         then categories_delete_id e u c w =
                (json 400 False
                   (Some (blocked_message (int (length (filter (\<lambda>t. t ''category_id'' = Num c \<and> t ''user_id'' = Num u)
                                                         (table_rows (store w) Tasks)))))) None,
                 w\<lparr>issued := issued w @
                      [SELECT [''id'', ''user_id''] Categories [Eq ''id'' (Num c)],
                       SELECT_COUNT Tasks [Eq ''category_id'' (Num c), Eq ''user_id'' (Num u)]]\<rparr>)
         else fst (categories_delete_id e u c w) = json 200 True (Some ''Category deleted successfully'') None
            \<and> sent w (snd (categories_delete_id e u c w)) =
                [SELECT [''id'', ''user_id''] Categories [Eq ''id'' (Num c)],
                 SELECT_COUNT Tasks [Eq ''category_id'' (Num c), Eq ''user_id'' (Num u)],
                 DELETE Categories [Eq ''id'' (Num c), Eq ''user_id'' (Num u)] []]"
proof -
  define q1 where "q1 = SELECT [''id'', ''user_id''] Categories [Eq ''id'' (Num c)]"
  define q2 where "q2 = SELECT_COUNT Tasks [Eq ''category_id'' (Num c), Eq ''user_id'' (Num u)]"
  define q3 where "q3 = DELETE Categories (own_category c u) []"
  define n where "n = length (filter (\<lambda>t. t ''category_id'' = Num c \<and> t ''user_id'' = Num u)
                          (table_rows (store w) Tasks))"
  define w1 where "w1 = w\<lparr>issued := issued w @ [q1]\<rparr>"
  define w2 where "w2 = w\<lparr>issued := issued w @ [q1, q2]\<rparr>"
  have m1: "matches [Eq ''id'' (Num c)] = (\<lambda>r. r ''id'' = Num c)"
    by (rule ext) (simp add: matches_def)
  have m2: "matches [Eq ''category_id'' (Num c), Eq ''user_id'' (Num u)]
              = (\<lambda>t. t ''category_id'' = Num c \<and> t ''user_id'' = Num u)"
    by (rule ext) (simp add: matches_def)
  have fx: "find (\<lambda>r. r ''id'' = Num c) (table_rows (store w) Categories) = Some x"
    and cells: "integer_cell (x ''id'') \<and> integer_cell (x ''user_id'')"
    using assms(1) by (auto simp: stored_category_def split: option.splits if_splits)
  have "x ''id'' = Num c"
    using fx by (auto simp: find_Some_iff)
  then have ic: "int4 c" and iu: "int4 u"
    using cells assms(2) by (simp_all add: integer_cell_def)
  have b1: "bind_conds e [Eq ''id'' (Num c)] = Inr [Eq ''id'' (Num c)]"
    using ic by (simp add: bind_id)
  have b2: "bind_conds e [Eq ''category_id'' (Num c), Eq ''user_id'' (Num u)] =
              Inr [Eq ''category_id'' (Num c), Eq ''user_id'' (Num u)]"
    using ic iu by (simp add: bind_count)
  have b3: "bind_conds e (own_category c u) = Inr (own_category c u)"
    using ic iu by (simp add: bind_own_category)
  obtain xs where f: "filter (\<lambda>r. r ''id'' = Num c) (table_rows (store w) Categories) = x # xs"
    using fx
    by (cases "filter (\<lambda>r. r ''id'' = Num c) (table_rows (store w) Categories)")
       (simp_all add: find_filter)
  have h: "categories_delete_id_handler e u c w = categories_delete_id_checked e u c w1"
    using assms(2)
    by (simp add: categories_delete_id_handler_def query_SELECT b1 m1 f project_def lookup_def
          q1_def w1_def)
  have cnt: "query e q2 w1 = (Inr [[(''count'', Num (int n))]], w2)"
    by (simp add: q2_def query_SELECT_COUNT b2 m2 n_def w1_def w2_def)
  have chk: "categories_delete_id_checked e u c w1 =
       (if 0 < n then (Respond (json 400 False (Some (blocked_message (int n))) None), w2)
        else categories_delete_id_delete e u c w2)"
    using cnt by (simp add: categories_delete_id_checked_def q2_def lookup_def)
  obtain gone w3 where del: "query e q3 w2 = (Inr gone, w3)" and i3: "issued w3 = issued w2 @ [q3]"
    using query_DELETE [OF b3, of Categories "[]" w2] unfolding q3_def by blast
  have dl: "categories_delete_id_delete e u c w2 =
       (Respond (json 200 True (Some ''Category deleted successfully'') None), w3)"
    using del by (simp add: categories_delete_id_delete_def q3_def)
  show ?thesis
  proof (cases "0 < n")
    case True
    then have "categories_delete_id e u c w = (json 400 False (Some (blocked_message (int n))) None, w2)"
      by (simp add: categories_delete_id_def h chk finish_def)
    then show ?thesis
      using True unfolding n_def w2_def q1_def q2_def by simp
  next
    case False
    then have r: "categories_delete_id e u c w =
        (json 200 True (Some ''Category deleted successfully'') None, w3)"
      by (simp add: categories_delete_id_def h chk dl finish_def)
    have "sent w w3 = [q1, q2, q3]"
      using i3 by (simp add: sent_def w2_def)
    then show ?thesis
      using False r unfolding n_def q1_def q2_def q3_def own_category_def by simp
  qed
qed

lemma demo_filed_category:
  "\<exists>x. stored_category (store demo_filed) 5 = Some x \<and> x ''user_id'' = Num 2"
  by (simp add: demo_filed_def route_defs route_defs2 validate_defs schema_defs demo_defs store_defs)

lemma demo_filed_tasks:
  "map (\<lambda>t. (t ''id'', t ''user_id'')) (filter (\<lambda>t. t ''category_id'' = Num 5) (table_rows (store demo_filed) Tasks)) =
     [(Num 4, Num 2), (Num 6, Num 1)]"
  by (simp add: demo_filed_def route_defs route_defs2 validate_defs schema_defs demo_defs store_defs)

lemma demo_filed_own:
  "length (filter (\<lambda>t. t ''category_id'' = Num 5 \<and> t ''user_id'' = Num 2) (table_rows (store demo_filed) Tasks)) = 1"
  by (simp add: demo_filed_def route_defs route_defs2 validate_defs schema_defs demo_defs store_defs)

lemma demo_world_category:
  "\<exists>x. stored_category (store demo_world) 5 = Some x \<and> x ''user_id'' = Num 2"
  by (simp add: route_defs2 demo_defs store_defs)

lemma demo_world_own:
  "length (filter (\<lambda>t. t ''category_id'' = Num 5 \<and> t ''user_id'' = Num 2) (table_rows (store demo_world) Tasks)) = 0"
  by (simp add: demo_defs)

text \<open>
  Two tasks refer to category 5, task 4 of its owner and task 6 of the first user: the
  owner is told of one task. Before task 4 was filed there, the deletion went through.
\<close>

theorem category_deletion_counts_own_tasks_witness:
  "map (\<lambda>t. (t ''id'', t ''user_id''))
       (filter (\<lambda>t. t ''category_id'' = Num 5) (table_rows (store demo_filed) Tasks)) =
     [(Num 4, Num 2), (Num 6, Num 1)]
   \<and> fst (categories_delete_id (demo_env 2000) 2 5 demo_filed) =
        json 400 False (Some (blocked_message 1)) None
   \<and> store (snd (categories_delete_id (demo_env 2000) 2 5 demo_filed)) = store demo_filed
   \<and> fst (categories_delete_id (demo_env 2000) 2 5 demo_world) =
        json 200 True (Some ''Category deleted successfully'') None"
proof -
  obtain x where x: "stored_category (store demo_filed) 5 = Some x" and xu: "x ''user_id'' = Num 2"
    using demo_filed_category by blast
  obtain y where y: "stored_category (store demo_world) 5 = Some y" and yu: "y ''user_id'' = Num 2"
    using demo_world_category by blast
  have a: "fst (categories_delete_id (demo_env 2000) 2 5 demo_filed) =
        json 400 False (Some (blocked_message 1)) None
      \<and> store (snd (categories_delete_id (demo_env 2000) 2 5 demo_filed)) = store demo_filed"
    using category_deletion_counts_own_tasks [OF x xu, of "demo_env 2000"]
    unfolding demo_filed_own by simp
  have b: "fst (categories_delete_id (demo_env 2000) 2 5 demo_world) =
        json 200 True (Some ''Category deleted successfully'') None"
    using category_deletion_counts_own_tasks [OF y yu, of "demo_env 2000"]
    unfolding demo_world_own by simp
  show ?thesis
    using a b demo_filed_tasks by simp
qed

section \<open>Defaults filled in by validation\<close>

lemma create_schema_distinct: "distinct (map fst taskSchemas_create)"
  by (simp add: taskSchemas_create_def)

lemma category_schema_distinct: "distinct (map fst categorySchemas_create)"
  by (simp add: categorySchemas_create_def)

lemma query_schema_distinct:
  "distinct (map fst (concat_schema querySchemas_pagination querySchemas_taskFilters))"
  by (simp add: concat_schema_def querySchemas_pagination_def querySchemas_taskFilters_def)

lemma create_fields:
  "map_of taskSchemas_create ''status'' =
     Some ((valid status_values Joi_string)\<lparr>dflt := Some (Str ''pending'')\<rparr>)"
  "map_of taskSchemas_create ''priority'' =
     Some ((valid priority_values Joi_string)\<lparr>dflt := Some (Str ''medium'')\<rparr>)"
  "map_of taskSchemas_create ''title'' = Some (Joi_string\<lparr>rules := [Rmin 1, Rmax 200], required := True\<rparr>)"
  "map_of taskSchemas_create ''category_id'' =
     Some (allow [Null] (Joi_number\<lparr>rules := [Rinteger, Rpositive]\<rparr>))"
  by (simp_all add: taskSchemas_create_def)

lemma category_fields:
  "map_of categorySchemas_create ''color'' =
     Some (Joi_string\<lparr>rules := [Rpattern hex_color], dflt := Some (Str ''#3B82F6'')\<rparr>)"
  by (simp add: categorySchemas_create_def)

lemma query_fields:
  "map_of (concat_schema querySchemas_pagination querySchemas_taskFilters) ''page'' =
     Some (Joi_number\<lparr>rules := [Rinteger, Rmin 1], dflt := Some (Num 1)\<rparr>)"
  "map_of (concat_schema querySchemas_pagination querySchemas_taskFilters) ''limit'' =
     Some (Joi_number\<lparr>rules := [Rinteger, Rmin 1, Rmax 100], dflt := Some (Num 10)\<rparr>)"
  "map_of (concat_schema querySchemas_pagination querySchemas_taskFilters) ''sort'' =
     Some ((valid [Str ''created_at'', Str ''updated_at'', Str ''title'', Str ''due_date'',
                   Str ''priority''] Joi_string)\<lparr>dflt := Some (Str ''created_at'')\<rparr>)"
  "map_of (concat_schema querySchemas_pagination querySchemas_taskFilters) ''order'' =
     Some ((valid [Str ''asc'', Str ''desc''] Joi_string)\<lparr>dflt := Some (Str ''desc'')\<rparr>)"
  by (simp_all add: concat_schema_def querySchemas_pagination_def)

lemma default_filled:
  assumes "schema_validate e sch raw = Inr v" and "distinct (map fst sch)"
    and "map_of sch k = Some s" and "dflt s = Some d" and "lookup raw k = None"
  shows "lookup v k = Some d"
  using lookup_normalized [OF assms(2), of e raw k] schema_validate_Inr(1) [OF assms(1)] assms(3-5)
  by simp

lemma sent_tasks_post_handler:
  "sent w (snd (finish e (tasks_post_handler e u v w))) =
     [INSERT Tasks
        [(''title'', param (lookup v ''title'')),
         (''description'', param (lookup v ''description'')),
         (''status'', param (lookup v ''status'')),
         (''priority'', param (lookup v ''priority'')),
         (''due_date'', param (lookup v ''due_date'')),
         (''category_id'', param (lookup v ''category_id'')),
         (''user_id'', Num u)]
        [''id'', ''title'', ''description'', ''status'', ''priority'', ''due_date'',
         ''created_at'', ''updated_at'']]"
  by (auto simp: tasks_post_handler_def finish_def sent_def split: prod.splits sum.splits outcome.splits
        dest!: query_issued)

text \<open>
  Claim C8. When an input passes validation, the normalised value has status ``pending''
  and priority ``medium'' for a task whose input omits them, color ``#3B82F6'' for a
  category whose input omits it, and page 1, limit 10, sort ``created_at'' and order
  ``desc'' for a list query that omits them. The handlers of POST /tasks and
  POST /categories run on the normalised value (the INSERT of a task carries its status
  and priority), and \<open>validateQuery\<close> hands the normalised query on.
\<close>

theorem validation_fills_defaults:
  "(schema_validate e taskSchemas_create body = Inr v \<longrightarrow>
       (lookup body ''status'' = None \<longrightarrow> lookup v ''status'' = Some (Str ''pending''))
     \<and> (lookup body ''priority'' = None \<longrightarrow> lookup v ''priority'' = Some (Str ''medium''))
     \<and> tasks_post e u body w = finish e (tasks_post_handler e u v w)
     \<and> sent w (snd (tasks_post e u body w)) =
         [INSERT Tasks
            [(''title'', param (lookup v ''title'')),
             (''description'', param (lookup v ''description'')),
             (''status'', param (lookup v ''status'')),
             (''priority'', param (lookup v ''priority'')),
             (''due_date'', param (lookup v ''due_date'')),
             (''category_id'', param (lookup v ''category_id'')),
             (''user_id'', Num u)]
            [''id'', ''title'', ''description'', ''status'', ''priority'', ''due_date'',
             ''created_at'', ''updated_at'']])
 \<and> (schema_validate e categorySchemas_create body = Inr v \<longrightarrow>
       (lookup body ''color'' = None \<longrightarrow> lookup v ''color'' = Some (Str ''#3B82F6''))
     \<and> categories_post e u body w = finish e (categories_post_handler e u v w))
 \<and> (schema_validate e (concat_schema querySchemas_pagination querySchemas_taskFilters) q = Inr v \<longrightarrow>
       (lookup q ''page'' = None \<longrightarrow> lookup v ''page'' = Some (Num 1))
     \<and> (lookup q ''limit'' = None \<longrightarrow> lookup v ''limit'' = Some (Num 10))
     \<and> (lookup q ''sort'' = None \<longrightarrow> lookup v ''sort'' = Some (Str ''created_at''))
     \<and> (lookup q ''order'' = None \<longrightarrow> lookup v ''order'' = Some (Str ''desc''))
     \<and> validateQuery e (concat_schema querySchemas_pagination querySchemas_taskFilters) q = Inr v)"
proof (intro conjI impI)
  assume sv: "schema_validate e taskSchemas_create body = Inr v"
  show "lookup v ''status'' = Some (Str ''pending'')" if "lookup body ''status'' = None"
    by (rule default_filled [OF sv create_schema_distinct create_fields(1) _ that]) simp
  show "lookup v ''priority'' = Some (Str ''medium'')" if "lookup body ''priority'' = None"
    by (rule default_filled [OF sv create_schema_distinct create_fields(2) _ that]) simp
  show p: "tasks_post e u body w = finish e (tasks_post_handler e u v w)"
    using sv by (simp add: tasks_post_def validate_def)
  show "sent w (snd (tasks_post e u body w)) =
         [INSERT Tasks
            [(''title'', param (lookup v ''title'')),
             (''description'', param (lookup v ''description'')),
             (''status'', param (lookup v ''status'')),
             (''priority'', param (lookup v ''priority'')),
             (''due_date'', param (lookup v ''due_date'')),
             (''category_id'', param (lookup v ''category_id'')),
             (''user_id'', Num u)]
            [''id'', ''title'', ''description'', ''status'', ''priority'', ''due_date'',
             ''created_at'', ''updated_at'']]"
    unfolding p by (rule sent_tasks_post_handler)
next
  assume sv: "schema_validate e categorySchemas_create body = Inr v"
  show "lookup v ''color'' = Some (Str ''#3B82F6'')" if "lookup body ''color'' = None"
    by (rule default_filled [OF sv category_schema_distinct category_fields _ that]) simp
  show "categories_post e u body w = finish e (categories_post_handler e u v w)"
    using sv by (simp add: categories_post_def validate_def)
next
  assume sv: "schema_validate e (concat_schema querySchemas_pagination querySchemas_taskFilters) q = Inr v"
  show "lookup v ''page'' = Some (Num 1)" if "lookup q ''page'' = None"
    by (rule default_filled [OF sv query_schema_distinct query_fields(1) _ that]) simp
  show "lookup v ''limit'' = Some (Num 10)" if "lookup q ''limit'' = None"
    by (rule default_filled [OF sv query_schema_distinct query_fields(2) _ that]) simp
  show "lookup v ''sort'' = Some (Str ''created_at'')" if "lookup q ''sort'' = None"
    by (rule default_filled [OF sv query_schema_distinct query_fields(3) _ that]) simp
  show "lookup v ''order'' = Some (Str ''desc'')" if "lookup q ''order'' = None"
    by (rule default_filled [OF sv query_schema_distinct query_fields(4) _ that]) simp
  show "validateQuery e (concat_schema querySchemas_pagination querySchemas_taskFilters) q = Inr v"
    using sv by (simp add: validateQuery_def)
qed

theorem validation_fills_defaults_witness:
  "schema_validate (demo_env 1000) taskSchemas_create [(''title'', Str ''Buy milk'')] =
     Inr [(''title'', Str ''Buy milk''), (''status'', Str ''pending''), (''priority'', Str ''medium'')]
   \<and> tasks_post (demo_env 1000) 1 [(''title'', Str ''Buy milk'')] demo_world =
       finish (demo_env 1000) (tasks_post_handler (demo_env 1000) 1
         [(''title'', Str ''Buy milk''), (''status'', Str ''pending''), (''priority'', Str ''medium'')] demo_world)
   \<and> sent demo_world (snd (tasks_post (demo_env 1000) 1 [(''title'', Str ''Buy milk'')] demo_world)) =
       [INSERT Tasks
          [(''title'', Str ''Buy milk''), (''description'', Null), (''status'', Str ''pending''),
           (''priority'', Str ''medium''), (''due_date'', Null), (''category_id'', Null), (''user_id'', Num 1)]
          [''id'', ''title'', ''description'', ''status'', ''priority'', ''due_date'',
           ''created_at'', ''updated_at'']]
   \<and> schema_validate (demo_env 1000) categorySchemas_create [(''name'', Str ''Reading list'')] =
       Inr [(''name'', Str ''Reading list''), (''color'', Str ''#3B82F6'')]
   \<and> categories_post (demo_env 1000) 1 [(''name'', Str ''Reading list'')] demo_world =
       finish (demo_env 1000) (categories_post_handler (demo_env 1000) 1
         [(''name'', Str ''Reading list''), (''color'', Str ''#3B82F6'')] demo_world)
   \<and> validateQuery (demo_env 1000) (concat_schema querySchemas_pagination querySchemas_taskFilters)
         [(''status'', Str ''pending'')] =
       Inr [(''status'', Str ''pending''), (''page'', Num 1), (''limit'', Num 10),
            (''sort'', Str ''created_at''), (''order'', Str ''desc'')]"
proof -
  have t: "schema_validate (demo_env 1000) taskSchemas_create [(''title'', Str ''Buy milk'')] =
     Inr [(''title'', Str ''Buy milk''), (''status'', Str ''pending''), (''priority'', Str ''medium'')]"
    by (simp add: validate_defs schema_defs)
  have c: "schema_validate (demo_env 1000) categorySchemas_create [(''name'', Str ''Reading list'')] =
       Inr [(''name'', Str ''Reading list''), (''color'', Str ''#3B82F6'')]"
    by (simp add: validate_defs schema_defs)
  have q: "schema_validate (demo_env 1000) (concat_schema querySchemas_pagination querySchemas_taskFilters)
         [(''status'', Str ''pending'')] =
       Inr [(''status'', Str ''pending''), (''page'', Num 1), (''limit'', Num 10),
            (''sort'', Str ''created_at''), (''order'', Str ''desc'')]"
    by (simp add: validate_defs schema_defs)
  note inst = validation_fills_defaults [where e = "demo_env 1000" and u = 1 and w = demo_world]
  note a = inst [where body = "[(''title'', Str ''Buy milk'')]", THEN conjunct1, THEN mp, OF t]
  note b = inst [where body = "[(''name'', Str ''Reading list'')]", THEN conjunct2, THEN conjunct1, THEN mp, OF c]
  note d = inst [where q = "[(''status'', Str ''pending'')]", THEN conjunct2, THEN conjunct2, THEN mp, OF q]
  note aP = a [THEN conjunct2, THEN conjunct2, THEN conjunct1]
  note aS = a [THEN conjunct2, THEN conjunct2, THEN conjunct2]
  have aS': "sent demo_world (snd (tasks_post (demo_env 1000) 1 [(''title'', Str ''Buy milk'')] demo_world)) =
       [INSERT Tasks
          [(''title'', Str ''Buy milk''), (''description'', Null), (''status'', Str ''pending''),
           (''priority'', Str ''medium''), (''due_date'', Null), (''category_id'', Null), (''user_id'', Num 1)]
          [''id'', ''title'', ''description'', ''status'', ''priority'', ''due_date'',
           ''created_at'', ''updated_at'']]"
    using aS by (simp add: lookup_def)
  note bP = b [THEN conjunct2]
  note dV = d [THEN conjunct2, THEN conjunct2, THEN conjunct2, THEN conjunct2]
  show ?thesis
    by (intro conjI t aP aS' c bP dV)
qed

section \<open>Creating a task in a category that is not checked\<close>
















end
